theory Spec2Isabelle
  imports Complex_Main
begin

section \<open>Execution records as the upstream reports them\<close>

text \<open>
  The gateway (\<^verbatim>\<open>custom-ui/backend/server.js\<close>) reads DAG runs from the upstream's
  \<^verbatim>\<open>/dags/~/dagRuns\<close> endpoint. A date field of a run is a JSON string or null. The code
  tests it for truthiness and parses it with \<^verbatim>\<open>new Date(..)\<close>; the model keeps the three
  outcomes of that: a falsy field (null, undefined or the empty string), a string that does
  not parse (the Date is invalid and every arithmetic on it is NaN), and a string that
  parses to a number of milliseconds since the epoch.
\<close>

datatype js_date = DateNull | DateInvalid | DateMs int

record dag_run =
  dag_id :: string
  dag_run_id :: string
  state :: string
  start_date :: js_date
  end_date :: js_date
  logical_date :: js_date

section \<open>The execution gate: the body of \<^verbatim>\<open>isAnyDagRunning\<close>\<close>

record cooldown_info =
  last_dag_id :: string
  last_dag_state :: string
  ci_end_date :: js_date
  minutes_since_completion :: int
  remaining_cooldown_minutes :: int

text \<open>
  The object \<^verbatim>\<open>isAnyDagRunning\<close> returns. The source leaves \<^verbatim>\<open>inCooldown\<close>,
  \<^verbatim>\<open>cooldownInfo\<close> and \<^verbatim>\<open>reason\<close> out of some of its results; every reader tests
  them for truthiness only, so an absent \<^verbatim>\<open>inCooldown\<close> is \<open>False\<close> here and an absent
  \<^verbatim>\<open>cooldownInfo\<close> or \<^verbatim>\<open>reason\<close> is \<open>None\<close>.
\<close>

record running_status =
  isRunning :: bool
  count :: nat
  runningDags :: "dag_run list"
  inCooldown :: bool
  cooldownInfo :: "cooldown_info option"
  reason :: "string option"

definition is_active :: "dag_run \<Rightarrow> bool" where
  "is_active dagRun \<longleftrightarrow> state dagRun = ''running'' \<or> state dagRun = ''queued''"

definition is_completed :: "dag_run \<Rightarrow> bool" where
  "is_completed dagRun \<longleftrightarrow>
     state dagRun = ''success'' \<or> state dagRun = ''failed'' \<or>
     state dagRun = ''skipped'' \<or> state dagRun = ''upstream_failed''"

definition cooldownPeriod :: int where
  "cooldownPeriod = 15 * 60 * 1000"

text \<open>
  \<^verbatim>\<open>Math.ceil((cooldownPeriod - timeSinceCompletion) / 1000 / 60)\<close> and
  \<^verbatim>\<open>Math.floor(timeSinceCompletion / 1000 / 60)\<close>. JavaScript computes both on doubles; the
  operands are whole milliseconds, and for every pair of dates less than \<open>2 ^ 51\<close> ms apart
  (some 71000 years) the two roundings of the divisions cannot carry the quotient across
  an integer, so the model divides exactly, in the rationals.
\<close>

definition remainingTime :: "int \<Rightarrow> int" where
  "remainingTime timeSinceCompletion =
     \<lceil>(of_int (cooldownPeriod - timeSinceCompletion) :: rat) / 1000 / 60\<rceil>"

definition minutesSince :: "int \<Rightarrow> int" where
  "minutesSince timeSinceCompletion = \<lfloor>(of_int timeSinceCompletion :: rat) / 1000 / 60\<rfloor>"

definition not_running :: running_status where
  "not_running =
     \<lparr>isRunning = False, count = 0, runningDags = [], inCooldown = False,
      cooldownInfo = None, reason = None\<rparr>"

text \<open>
  The decision on the runs of one response, at the time \<open>now\<close> read by \<^verbatim>\<open>new Date()\<close>
  (lines 194 to 269 of the source). An invalid end date makes \<^verbatim>\<open>timeSinceCompletion\<close>
  NaN, and \<^verbatim>\<open>NaN < cooldownPeriod\<close> is false.
\<close>

definition gate :: "dag_run list \<Rightarrow> int \<Rightarrow> running_status" where
  "gate allDagRuns now =
     (let activeDagRuns = filter is_active allDagRuns;
          runningCount = length activeDagRuns
      in if runningCount > 0 then
           \<lparr>isRunning = True, count = runningCount, runningDags = activeDagRuns,
            inCooldown = False, cooldownInfo = None, reason = Some ''running''\<rparr>
         else
           (case filter is_completed allDagRuns of
              [] \<Rightarrow> not_running
            | mostRecentCompleted # _ \<Rightarrow>
                (case end_date mostRecentCompleted of
                   DateMs endTime \<Rightarrow>
                     (let timeSinceCompletion = now - endTime
                      in if timeSinceCompletion < cooldownPeriod then
                           \<lparr>isRunning = True, count = 0, runningDags = [],
                            inCooldown = True,
                            cooldownInfo = Some
                              \<lparr>last_dag_id = dag_id mostRecentCompleted,
                               last_dag_state = state mostRecentCompleted,
                               ci_end_date = end_date mostRecentCompleted,
                               minutes_since_completion = minutesSince timeSinceCompletion,
                               remaining_cooldown_minutes = remainingTime timeSinceCompletion\<rparr>,
                            reason = Some ''cooldown''\<rparr>
                         else not_running)
                 | _ \<Rightarrow> not_running)))"

text \<open>
  The trigger handler reports \<^verbatim>\<open>runningStatus.runningDags[0]\<close> as the run that blocks;
  on an empty array that is \<^verbatim>\<open>undefined\<close>.
\<close>

definition first_running :: "running_status \<Rightarrow> dag_run option" where
  "first_running runningStatus =
     (case runningDags runningStatus of [] \<Rightarrow> None | runningDag # _ \<Rightarrow> Some runningDag)"

section \<open>The upstream, the clock and the cached credential\<close>

text \<open>
  A request as axios holds it: what is asked of the upstream, the \<^verbatim>\<open>Authorization\<close>
  header and the \<^verbatim>\<open>_retry\<close> mark the response interceptor sets. \<open>Bearer None\<close> is the
  header built from an undefined token. \<open>Payload3\<close> is the body sent to Airflow 3
  (\<^verbatim>\<open>logical_date\<close> and \<^verbatim>\<open>conf\<close>), \<open>Payload2\<close> the one sent to Airflow 2
  (\<^verbatim>\<open>conf\<close> only when it has keys).
\<close>

datatype auth_header = NoAuth | Bearer "string option" | Basic

type_synonym conf = "(string \<times> string) list"

datatype payload = Payload3 "string option" conf | Payload2 "conf option"

datatype request = PostAuthToken | GetDagRuns | PostDagRun string payload

record config =
  request :: request
  authorization :: auth_header
  retry :: bool

text \<open>
  The body of a 2xx response, with the fields the gateway reads: \<^verbatim>\<open>access_token\<close> of the
  token endpoint, \<^verbatim>\<open>dag_runs\<close> of the list endpoint (either may be missing), the run
  record the trigger endpoint returns. Response bodies are JSON objects throughout.
\<close>

datatype resp_data =
    TokenData "string option"
  | DagRunsData "dag_run list option"
  | DagRunData dag_run
  | OtherData string

text \<open>
  The upstream is outside the repository. It is modelled by the replies it gives, in the
  order the requests reach it: each reply arrives some milliseconds after its request and
  is a 2xx body or a failure, with the HTTP status when there was a response at all. When
  the script is used up the upstream is unreachable. Every behaviour of an upstream over
  finitely many requests is such a script, so a statement for all scripts is a statement
  for all upstreams.
\<close>

record failure =
  status :: "nat option"
  details :: string

record reply =
  latency :: nat
  outcome :: "failure + resp_data"

text \<open>
  The error axios rejects with: \<^verbatim>\<open>error.response?.status\<close>, the upstream's payload and
  \<^verbatim>\<open>error.config\<close>, the request that failed.
\<close>

record axios_error =
  err_status :: "nat option"
  err_details :: string
  err_config :: config

text \<open>
  The state the code runs in: the constant \<^verbatim>\<open>USE_JWT_AUTH\<close>, the wall clock read by
  \<^verbatim>\<open>Date.now()\<close>, the replies still to come, the module variables \<^verbatim>\<open>jwtToken\<close> and
  \<^verbatim>\<open>tokenExpiry\<close>, and a log of every request put on the wire, which the code does not
  have and which the theorems use to count calls.
\<close>

record world =
  use_jwt_auth :: bool
  clock :: int
  script :: "reply list"
  jwtToken :: "string option"
  tokenExpiry :: "int option"
  sent :: "config list"

text \<open>
  One HTTP exchange is two steps: the request goes out, and later the reply comes in and
  the clock has moved on. Synchronous code takes no time.
\<close>

definition http_send :: "config \<Rightarrow> world \<Rightarrow> world" where
  "http_send cfg w = w\<lparr>sent := sent w @ [cfg]\<rparr>"

definition http_receive :: "config \<Rightarrow> world \<Rightarrow> (axios_error + resp_data) \<times> world" where
  "http_receive cfg w =
     (case script w of
        [] \<Rightarrow> (Inl \<lparr>err_status = None, err_details = [], err_config = cfg\<rparr>, w)
      | r # rest \<Rightarrow>
          (let w' = w\<lparr>clock := clock w + int (latency r), script := rest\<rparr>
           in case outcome r of
                Inl f \<Rightarrow>
                  (Inl \<lparr>err_status = status f, err_details = details f, err_config = cfg\<rparr>, w')
              | Inr d \<Rightarrow> (Inr d, w')))"

definition http :: "config \<Rightarrow> world \<Rightarrow> (axios_error + resp_data) \<times> world" where
  "http cfg w = http_receive cfg (http_send cfg w)"

text \<open>
  \<^verbatim>\<open>response.data.access_token\<close> and \<^verbatim>\<open>response.data.dag_runs || []\<close>.
\<close>

definition access_token :: "resp_data \<Rightarrow> string option" where
  "access_token d = (case d of TokenData t \<Rightarrow> t | _ \<Rightarrow> None)"

definition dag_runs :: "resp_data \<Rightarrow> dag_run list" where
  "dag_runs d = (case d of DagRunsData (Some rs) \<Rightarrow> rs | _ \<Rightarrow> [])"

subsection \<open>\<^verbatim>\<open>getJWTToken\<close>\<close>

text \<open>
  The login request is sent with the plain \<^verbatim>\<open>axios\<close> instance, which has no interceptor.
  \<^verbatim>\<open>jwtToken && tokenExpiry && Date.now() < tokenExpiry\<close> follows JavaScript truthiness:
  null, undefined and the empty string are falsy, and so is the number 0.
\<close>

definition auth_request :: config where
  "auth_request = \<lparr>request = PostAuthToken, authorization = NoAuth, retry = False\<rparr>"

definition token_valid :: "world \<Rightarrow> bool" where
  "token_valid w =
     (case (jwtToken w, tokenExpiry w) of
        (Some tok, Some expiry) \<Rightarrow> tok \<noteq> [] \<and> expiry \<noteq> 0 \<and> clock w < expiry
      | _ \<Rightarrow> False)"

text \<open>
  The function suspends once, at \<^verbatim>\<open>await axios.post(..)\<close>. \<open>getJWTToken_begin\<close> is
  the part before it: it returns the cached token, or sends the login request and waits
  (\<open>None\<close>). \<open>getJWTToken_resume\<close> is the part after it, given the outcome of the
  request: it stores the token and the expiry, 23 hours after the reply, or rethrows.
  \<open>getJWTToken\<close> is one call running alone.
\<close>

definition getJWTToken_begin :: "world \<Rightarrow> string option option \<times> world" where
  "getJWTToken_begin w =
     (if token_valid w then (Some (jwtToken w), w)
      else (None, http_send auth_request w))"

definition getJWTToken_resume ::
  "(axios_error + resp_data) \<times> world \<Rightarrow> (axios_error + string option) \<times> world" where
  "getJWTToken_resume rw =
     (case rw of
        (Inl error, w) \<Rightarrow> (Inl error, w)
      | (Inr d, w) \<Rightarrow>
          (let w' = w\<lparr>jwtToken := access_token d,
                      tokenExpiry := Some (clock w + 23 * 60 * 60 * 1000)\<rparr>
           in (Inr (jwtToken w'), w')))"

definition getJWTToken :: "world \<Rightarrow> (axios_error + string option) \<times> world" where
  "getJWTToken w =
     (case getJWTToken_begin w of
        (Some token, w') \<Rightarrow> (Inr token, w')
      | (None, w') \<Rightarrow> getJWTToken_resume (http_receive auth_request w'))"

subsection \<open>The interceptors of \<^verbatim>\<open>airflowAPI\<close>\<close>

text \<open>
  \<open>invalidate\<close> is the pair of assignments \<^verbatim>\<open>jwtToken = null; tokenExpiry = null\<close> of
  the response interceptor.
\<close>

definition invalidate :: "world \<Rightarrow> world" where
  "invalidate w = w\<lparr>jwtToken := None, tokenExpiry := None\<rparr>"

definition request_interceptor :: "config \<Rightarrow> world \<Rightarrow> (axios_error + config) \<times> world" where
  "request_interceptor cfg w =
     (if use_jwt_auth w then
        (case getJWTToken w of
           (Inl error, w') \<Rightarrow> (Inl error, w')
         | (Inr token, w') \<Rightarrow> (Inr (cfg\<lparr>authorization := Bearer token\<rparr>), w'))
      else (Inr (cfg\<lparr>authorization := Basic\<rparr>), w))"

text \<open>
  The error handler of the response interceptor either rejects, or sets \<^verbatim>\<open>_retry\<close> on the
  failed request, clears the credential, fetches a new one and calls \<^verbatim>\<open>airflowAPI\<close> again
  with that request.
\<close>

datatype retry_decision = Reject axios_error | Resend config

definition response_error_interceptor :: "axios_error \<Rightarrow> world \<Rightarrow> retry_decision \<times> world" where
  "response_error_interceptor error w =
     (let originalRequest = err_config error
      in if err_status error = Some 401 \<and> \<not> retry originalRequest then
           (case getJWTToken (invalidate w) of
              (Inl refreshError, w') \<Rightarrow> (Reject refreshError, w')
            | (Inr token, w') \<Rightarrow>
                (Resend (originalRequest\<lparr>retry := True, authorization := Bearer token\<rparr>), w'))
         else (Reject error, w))"

text \<open>
  axios runs a request as one promise chain: the request interceptor, the dispatch, the
  response interceptors. \<open>attempt\<close> is the first two links. A rejection of either link
  reaches the error handler of the response interceptor, so the handler also sees a login
  that failed in the request interceptor; \<^verbatim>\<open>error.config\<close> is then the login request.
  The call made by the handler runs the same chain again, which makes \<open>airflowAPI\<close>
  recursive. It terminates because each further round has consumed a reply.
\<close>

definition attempt :: "config \<Rightarrow> world \<Rightarrow> (axios_error + resp_data) \<times> world" where
  "attempt cfg w =
     (case request_interceptor cfg w of
        (Inl error, w') \<Rightarrow> (Inl error, w')
      | (Inr cfg', w') \<Rightarrow> http cfg' w')"

lemma http_receive_script: "length (script (snd (http_receive cfg w))) \<le> length (script w)"
  by (simp add: http_receive_def Let_def split: list.splits sum.splits)

lemma http_script: "length (script (snd (http cfg w))) \<le> length (script w)"
  using http_receive_script [of cfg "http_send cfg w"] by (simp add: http_def http_send_def)

lemma getJWTToken_script: "length (script (snd (getJWTToken w))) \<le> length (script w)"
  using http_receive_script [of auth_request "http_send auth_request w"]
  by (auto simp: getJWTToken_def getJWTToken_begin_def getJWTToken_resume_def http_send_def Let_def
        split: prod.splits sum.splits)

lemma request_interceptor_script:
  "length (script (snd (request_interceptor cfg w))) \<le> length (script w)"
  using getJWTToken_script [of w]
  by (auto simp: request_interceptor_def split: prod.splits sum.splits)

lemma attempt_script: "length (script (snd (attempt cfg w))) \<le> length (script w)"
proof (cases "request_interceptor cfg w")
  case (Pair r w')
  with request_interceptor_script [of cfg w] have le: "length (script w') \<le> length (script w)"
    by simp
  show ?thesis
  proof (cases r)
    case (Inl error)
    with Pair le show ?thesis by (simp add: attempt_def)
  next
    case (Inr cfg')
    with Pair have "attempt cfg w = http cfg' w'" by (simp add: attempt_def)
    with http_script [of cfg' w'] le show ?thesis by simp
  qed
qed

lemma getJWTToken_invalidate_script:
  "getJWTToken (invalidate w) = (Inr token, w') \<Longrightarrow> length (script w') < length (script w)"
  by (auto simp: getJWTToken_def getJWTToken_begin_def getJWTToken_resume_def token_valid_def
        invalidate_def http_send_def http_receive_def Let_def
        split: prod.splits sum.splits list.splits)

lemma resend_script:
  "response_error_interceptor error w = (Resend cfg', w') \<Longrightarrow>
     length (script w') < length (script w)"
  by (auto simp: response_error_interceptor_def Let_def
        split: if_splits prod.splits sum.splits dest: getJWTToken_invalidate_script)

function airflowAPI :: "config \<Rightarrow> world \<Rightarrow> (axios_error + resp_data) \<times> world" where
  "airflowAPI cfg w =
     (case attempt cfg w of
        (Inr d, w1) \<Rightarrow> (Inr d, w1)
      | (Inl error, w1) \<Rightarrow>
          (case response_error_interceptor error w1 of
             (Reject error', w2) \<Rightarrow> (Inl error', w2)
           | (Resend cfg', w2) \<Rightarrow> airflowAPI cfg' w2))"
  by pat_completeness auto

termination
proof (relation "measure (\<lambda>(cfg, w). length (script w))")
  show "wf (measure (\<lambda>(cfg, w). length (script w)))" by simp
next
  fix cfg w x1 w1 error x2 w2 cfg'
  assume a: "(x1, w1) = attempt cfg w" and r: "(x2, w2) = response_error_interceptor error w1"
    and x2: "x2 = Resend cfg'"
  from a attempt_script [of cfg w] have "length (script w1) \<le> length (script w)"
    by (metis snd_conv)
  moreover from r x2 have "length (script w2) < length (script w1)"
    by (metis resend_script)
  ultimately show "((cfg', w2), (cfg, w)) \<in> measure (\<lambda>(cfg, w). length (script w))" by simp
qed

declare airflowAPI.simps [simp del]

section \<open>The gateway service\<close>

text \<open>
  \<^verbatim>\<open>isAnyDagRunning\<close> fetches the recent runs and decides on them at the time the
  response is there; any error of the fetch is caught and answered with the idle result.
\<close>

definition list_request :: config where
  "list_request = \<lparr>request = GetDagRuns, authorization = NoAuth, retry = False\<rparr>"

definition isAnyDagRunning :: "world \<Rightarrow> running_status \<times> world" where
  "isAnyDagRunning w =
     (case airflowAPI list_request w of
        (Inr d, w') \<Rightarrow> (gate (dag_runs d) (clock w'), w')
      | (Inl error, w') \<Rightarrow> (not_running, w'))"

text \<open>
  The responses of \<^verbatim>\<open>POST /api/dags/:dagId/dagRuns\<close>. \<open>CooldownConflict\<close> carries the
  fields of \<^verbatim>\<open>details\<close> in the cooldown rejection (the last fault's id, state and end
  date, the minutes since completion, the remaining minutes and the period of 15 minutes),
  \<open>RunningConflict\<close> the run reported as \<^verbatim>\<open>currently_running\<close> and \<^verbatim>\<open>total_running\<close>.
  The message strings are left out. \<open>InternalError\<close> is the status 500 the handler's
  \<^verbatim>\<open>catch\<close> answers when reading a field of \<^verbatim>\<open>undefined\<close> throws.
\<close>

datatype response_body =
    RunCreated resp_data
  | CooldownConflict string string js_date int int nat
  | RunningConflict dag_run nat
  | ErrorBody string
  | InternalError

record http_response =
  status_code :: nat
  body :: response_body

definition build_payload :: "bool \<Rightarrow> conf option \<Rightarrow> string option \<Rightarrow> payload" where
  "build_payload jwt conf logicalDate =
     (if jwt then
        Payload3 (case logicalDate of Some l \<Rightarrow> (if l = [] then None else Some l) | None \<Rightarrow> None)
                 (case conf of Some c \<Rightarrow> c | None \<Rightarrow> [])
      else
        Payload2 (case conf of Some c \<Rightarrow> (if length c > 0 then Some c else None) | None \<Rightarrow> None))"

definition trigger_request :: "string \<Rightarrow> payload \<Rightarrow> config" where
  "trigger_request dagId p =
     \<lparr>request = PostDagRun dagId p, authorization = NoAuth, retry = False\<rparr>"

definition error_status :: "axios_error \<Rightarrow> nat" where
  "error_status error =
     (case err_status error of Some s \<Rightarrow> (if s = 0 then 500 else s) | None \<Rightarrow> 500)"

definition trigger_dag ::
  "string \<Rightarrow> conf option \<Rightarrow> string option \<Rightarrow> world \<Rightarrow> http_response \<times> world" where
  "trigger_dag dagId conf logicalDate w =
     (case isAnyDagRunning w of
        (runningStatus, w1) \<Rightarrow>
          if isRunning runningStatus then
            if inCooldown runningStatus then
              (case cooldownInfo runningStatus of
                 None \<Rightarrow> (\<lparr>status_code = 500, body = InternalError\<rparr>, w1)
               | Some cooldown \<Rightarrow>
                   (\<lparr>status_code = 409,
                     body = CooldownConflict (last_dag_id cooldown) (last_dag_state cooldown)
                              (ci_end_date cooldown) (minutes_since_completion cooldown)
                              (remaining_cooldown_minutes cooldown) 15\<rparr>, w1))
            else
              (case runningDags runningStatus of
                 [] \<Rightarrow> (\<lparr>status_code = 500, body = InternalError\<rparr>, w1)
               | runningDag # _ \<Rightarrow>
                   (\<lparr>status_code = 409,
                     body = RunningConflict runningDag (count runningStatus)\<rparr>, w1))
          else
            (case airflowAPI
                    (trigger_request dagId (build_payload (use_jwt_auth w1) conf logicalDate)) w1 of
               (Inr d, w2) \<Rightarrow> (\<lparr>status_code = 200, body = RunCreated d\<rparr>, w2)
             | (Inl error, w2) \<Rightarrow>
                 (\<lparr>status_code = error_status error, body = ErrorBody (err_details error)\<rparr>, w2)))"

section \<open>Two callers at once\<close>

text \<open>
  Node runs one piece of code at a time and switches at \<^verbatim>\<open>await\<close>. Two requests that
  arrive together therefore run \<^verbatim>\<open>getJWTToken\<close> like this: the first caller runs up to
  its \<^verbatim>\<open>await\<close>, the second caller runs up to its own, then each continues when its reply
  arrives.
\<close>

definition two_concurrent_getJWTToken ::
  "world \<Rightarrow> ((axios_error + string option) \<times> (axios_error + string option)) \<times> world" where
  "two_concurrent_getJWTToken w =
     (case getJWTToken_begin w of
        (a, w1) \<Rightarrow>
          (case getJWTToken_begin w1 of
             (b, w2) \<Rightarrow>
               (case (case a of
                        Some token \<Rightarrow> (Inr token, w2)
                      | None \<Rightarrow> getJWTToken_resume (http_receive auth_request w2)) of
                  (resultA, w3) \<Rightarrow>
                    (case (case b of
                             Some token \<Rightarrow> (Inr token, w3)
                           | None \<Rightarrow> getJWTToken_resume (http_receive auth_request w3)) of
                       (resultB, w4) \<Rightarrow> ((resultA, resultB), w4)))))"

section \<open>What the theorems observe\<close>

text \<open>
  \<open>count_sent rq w\<close> is the number of requests for \<open>rq\<close> put on the wire so far.
  \<open>fresh_sent rq w w'\<close>: from \<open>w\<close> to \<open>w'\<close> the log only grew, by requests for \<open>rq\<close>
  and logins.
\<close>

definition count_sent :: "request \<Rightarrow> world \<Rightarrow> nat" where
  "count_sent rq w = length (filter (\<lambda>c. request c = rq) (sent w))"

definition is_trigger :: "config \<Rightarrow> bool" where
  "is_trigger c = (case request c of PostDagRun _ _ \<Rightarrow> True | _ \<Rightarrow> False)"

definition fresh_sent :: "request \<Rightarrow> world \<Rightarrow> world \<Rightarrow> bool" where
  "fresh_sent rq w w' \<longleftrightarrow>
     (\<exists>xs. sent w' = sent w @ xs \<and> (\<forall>c \<in> set xs. request c = rq \<or> request c = PostAuthToken))"

section \<open>The words of the specification about the gate\<close>




text \<open>
  \<open>ended_later a b\<close>: \<open>a\<close> has an end time and \<open>b\<close> has none or an earlier one.
  \<open>most_recent_endedAt\<close> selects, from a list of records, the one with the most recent
  end time (the first of them on a tie).
\<close>

definition ended_later :: "dag_run \<Rightarrow> dag_run \<Rightarrow> bool" where
  "ended_later a b =
     (case (end_date a, end_date b) of
        (DateMs x, DateMs y) \<Rightarrow> y < x
      | (DateMs x, _) \<Rightarrow> True
      | _ \<Rightarrow> False)"

fun most_recent_endedAt :: "dag_run list \<Rightarrow> dag_run option" where
  "most_recent_endedAt [] = None"
| "most_recent_endedAt (r # rs) =
     (case most_recent_endedAt rs of
        None \<Rightarrow> Some r
      | Some b \<Rightarrow> if ended_later b r then Some b else Some r)"

section \<open>Example records, replies and states\<close>

definition run :: "string \<Rightarrow> string \<Rightarrow> js_date \<Rightarrow> js_date \<Rightarrow> dag_run" where
  "run name st started ended =
     \<lparr>dag_id = name, dag_run_id = name, state = st, start_date = started,
      end_date = ended, logical_date = DateNull\<rparr>"



definition runs_null_end :: "dag_run list" where
  "runs_null_end =
     [run ''fault_new'' ''failed'' (DateMs 5000000) DateNull,
      run ''fault_old'' ''success'' (DateMs 4000000) (DateMs 9940000)]"

definition runs_five_minutes :: "dag_run list" where
  "runs_five_minutes = [run ''fault_a'' ''success'' (DateMs 9000000) (DateMs 9700000)]"

definition runs_twenty_minutes :: "dag_run list" where
  "runs_twenty_minutes =
     [run ''fault_a'' ''success'' (DateMs 8000000) (DateMs 8800000),
      run ''fault_b'' ''up_for_retry'' (DateMs 7000000) DateNull,
      run ''fault_c'' ''failed'' (DateMs 6000000) (DateMs 6500000)]"

definition reply_401 :: reply where
  "reply_401 = \<lparr>latency = 10, outcome = Inl \<lparr>status = Some 401, details = ''Unauthorized''\<rparr>\<rparr>"

definition reply_503 :: reply where
  "reply_503 = \<lparr>latency = 10, outcome = Inl \<lparr>status = Some 503, details = ''unavailable''\<rparr>\<rparr>"

definition reply_token :: "string \<Rightarrow> reply" where
  "reply_token t = \<lparr>latency = 10, outcome = Inr (TokenData (Some t))\<rparr>"

definition reply_no_token :: reply where
  "reply_no_token = \<lparr>latency = 10, outcome = Inr (TokenData None)\<rparr>"

definition reply_runs :: "dag_run list \<Rightarrow> reply" where
  "reply_runs rs = \<lparr>latency = 10, outcome = Inr (DagRunsData (Some rs))\<rparr>"

definition reply_created :: "dag_run \<Rightarrow> reply" where
  "reply_created r = \<lparr>latency = 10, outcome = Inr (DagRunData r)\<rparr>"

definition world_login_flapping :: world where
  "world_login_flapping =
     \<lparr>use_jwt_auth = True, clock = 1000,
      script = [reply_401, reply_no_token, reply_401, reply_no_token, reply_401],
      jwtToken = None, tokenExpiry = None, sent = []\<rparr>"

definition world_basic_401 :: world where
  "world_basic_401 =
     \<lparr>use_jwt_auth = False, clock = 1000,
      script = [reply_401, reply_token ''t2'', reply_401, reply_runs []],
      jwtToken = None, tokenExpiry = None, sent = []\<rparr>"

definition world_expiring :: world where
  "world_expiring =
     \<lparr>use_jwt_auth = True, clock = 4999995,
      script = [reply_runs [], reply_401, reply_token ''t2'', reply_token ''t3''],
      jwtToken = Some ''t1'', tokenExpiry = Some 5000000, sent = []\<rparr>"

definition world_no_token :: world where
  "world_no_token =
     \<lparr>use_jwt_auth = True, clock = 1000,
      script = [reply_token ''tA'', reply_token ''tB''],
      jwtToken = None, tokenExpiry = None, sent = []\<rparr>"

definition world_cached :: world where
  "world_cached =
     \<lparr>use_jwt_auth = True, clock = 1000, script = [reply_token ''t2''],
      jwtToken = Some ''t1'', tokenExpiry = Some 5000000, sent = []\<rparr>"

definition world_expired :: world where
  "world_expired =
     \<lparr>use_jwt_auth = True, clock = 5000000, script = [reply_token ''t2''],
      jwtToken = Some ''t1'', tokenExpiry = Some 5000000, sent = []\<rparr>"

definition world_expired_down :: world where
  "world_expired_down =
     \<lparr>use_jwt_auth = True, clock = 5000000, script = [reply_503],
      jwtToken = Some ''t1'', tokenExpiry = Some 5000000, sent = []\<rparr>"

definition world_second_login_fails :: world where
  "world_second_login_fails =
     \<lparr>use_jwt_auth = True, clock = 1000,
      script = [reply_token ''tA'', reply_503],
      jwtToken = None, tokenExpiry = None, sent = []\<rparr>"

definition world_upstream_down :: world where
  "world_upstream_down =
     \<lparr>use_jwt_auth = False, clock = 1000,
      script = [reply_503, reply_created (run ''fault_x'' ''queued'' DateNull DateNull)],
      jwtToken = None, tokenExpiry = None, sent = []\<rparr>"

section \<open>Lemmas about the gate\<close>

lemma find_filter: "find P xs = (case filter P xs of [] \<Rightarrow> None | x # _ \<Rightarrow> Some x)"
  by (induction xs) auto


lemma minutesSince_div: "minutesSince t = t div 60000"
proof -
  have "(of_int t :: rat) / 1000 / 60 = of_int t / of_int 60000" by simp
  then show ?thesis unfolding minutesSince_def by (simp only: floor_divide_of_int_eq)
qed

lemma remainingTime_div: "remainingTime t = - ((t - cooldownPeriod) div 60000)"
proof -
  have "(of_int (cooldownPeriod - t) :: rat) / 1000 / 60
          = - (of_int (t - cooldownPeriod) / of_int 60000)"
    by (simp add: field_simps)
  then show ?thesis
    unfolding remainingTime_def ceiling_def by (simp only: floor_divide_of_int_eq minus_minus)
qed

lemma floor_bounds:
  fixes e :: int
  shows "60000 * (e div 60000) \<le> e \<and> e < 60000 * (e div 60000 + 1)"
proof -
  define q where "q = e div 60000"
  define r where "r = e mod 60000"
  have "e = 60000 * q + r" "0 \<le> r" "r < 60000" by (simp_all add: q_def r_def)
  then have "60000 * q \<le> e \<and> e < 60000 * (q + 1)" by simp
  then show ?thesis by (simp only: q_def)
qed

lemma ceil_bounds:
  fixes d :: int
  shows "60000 * (- ((- d) div 60000) - 1) < d \<and> d \<le> 60000 * (- ((- d) div 60000))"
proof -
  define q where "q = (- d) div 60000"
  from floor_bounds [of "- d"] have "60000 * q \<le> - d \<and> - d < 60000 * (q + 1)"
    by (simp only: q_def)
  then have "60000 * (- q - 1) < d \<and> d \<le> 60000 * (- q)" by simp
  then show ?thesis by (simp only: q_def)
qed

lemma gate_no_active:
  assumes "\<forall>r \<in> set rs. \<not> is_active r"
  shows "gate rs now =
           (case find is_completed rs of
              None \<Rightarrow> not_running
            | Some r \<Rightarrow>
                (case end_date r of
                   DateMs endTime \<Rightarrow>
                     if now - endTime < cooldownPeriod then
                       \<lparr>isRunning = True, count = 0, runningDags = [], inCooldown = True,
                        cooldownInfo = Some
                          \<lparr>last_dag_id = dag_id r, last_dag_state = state r,
                           ci_end_date = end_date r,
                           minutes_since_completion = (now - endTime) div 60000,
                           remaining_cooldown_minutes =
                             - ((now - endTime - cooldownPeriod) div 60000)\<rparr>,
                        reason = Some ''cooldown''\<rparr>
                     else not_running
                 | _ \<Rightarrow> not_running))"
proof -
  from assms have "filter is_active rs = []" by (simp add: filter_empty_conv)
  then show ?thesis
    by (simp add: gate_def Let_def find_filter minutesSince_div remainingTime_div
          split: list.splits js_date.splits)
qed

lemma gate_all_ended_long_ago:
  assumes "\<forall>r \<in> set rs. \<not> is_active r"
    and "\<forall>r \<in> set rs. is_completed r \<longrightarrow> (\<forall>t. end_date r = DateMs t \<longrightarrow> cooldownPeriod \<le> now - t)"
  shows "gate rs now = not_running"
proof (cases "find is_completed rs")
  case None
  with assms(1) show ?thesis by (simp add: gate_no_active)
next
  case (Some r)
  then have "r \<in> set rs" "is_completed r" by (auto simp: find_Some_iff)
  with assms(2) have "\<forall>t. end_date r = DateMs t \<longrightarrow> \<not> now - t < cooldownPeriod" by fastforce
  with Some assms(1) show ?thesis by (simp add: gate_no_active split: js_date.splits)
qed

lemma gate_blocked_shape:
  "isRunning (gate rs now) \<Longrightarrow>
     (inCooldown (gate rs now) \<longrightarrow> cooldownInfo (gate rs now) \<noteq> None) \<and>
     (\<not> inCooldown (gate rs now) \<longrightarrow> runningDags (gate rs now) \<noteq> [])"
  by (auto simp: gate_def Let_def not_running_def split: list.splits js_date.splits if_splits)



lemma ended_later_irrefl: "\<not> ended_later x x"
  by (simp add: ended_later_def split: js_date.splits)

lemma ended_later_asym: "ended_later b y \<Longrightarrow> \<not> ended_later y b"
  by (auto simp: ended_later_def split: js_date.splits)

lemma ended_later_negtrans: "ended_later x y \<Longrightarrow> ended_later x b \<or> ended_later b y"
  by (auto simp: ended_later_def split: js_date.splits)

lemma most_recent_endedAt_None: "most_recent_endedAt xs = None \<longleftrightarrow> xs = []"
  by (cases xs) (auto split: option.splits)

lemma most_recent_endedAt_latest:
  "most_recent_endedAt xs = Some r \<Longrightarrow> r \<in> set xs \<and> (\<forall>x \<in> set xs. \<not> ended_later x r)"
proof (induction xs arbitrary: r)
  case Nil
  then show ?case by simp
next
  case (Cons y ys)
  show ?case
  proof (cases "most_recent_endedAt ys")
    case None
    then have "ys = []" by (simp add: most_recent_endedAt_None)
    with Cons.prems show ?thesis by (simp add: ended_later_irrefl)
  next
    case (Some b)
    with Cons.IH have b: "b \<in> set ys" "\<forall>x \<in> set ys. \<not> ended_later x b" by blast+
    show ?thesis
    proof (cases "ended_later b y")
      case True
      with Some Cons.prems have "r = b" by simp
      with b True show ?thesis by (auto dest: ended_later_asym)
    next
      case False
      with Some Cons.prems have "r = y" by simp
      with b False show ?thesis by (auto simp: ended_later_irrefl dest: ended_later_negtrans)
    qed
  qed
qed

lemma most_recent_endedAt_max:
  assumes "most_recent_endedAt xs = Some r" "end_date r = DateMs t"
    and "x \<in> set xs" "end_date x = DateMs u"
  shows "u \<le> t"
proof -
  from most_recent_endedAt_latest [OF assms(1)] assms(3) have "\<not> ended_later x r" by blast
  with assms(2,4) show ?thesis by (simp add: ended_later_def)
qed

section \<open>Lemmas about the credential and the upstream client\<close>

lemmas client_eval =
  request_interceptor_def getJWTToken_def getJWTToken_begin_def getJWTToken_resume_def
  token_valid_def http_def http_send_def http_receive_def invalidate_def access_token_def
  auth_request_def list_request_def Let_def

lemmas handler_eval =
  airflowAPI.simps attempt_def response_error_interceptor_def isAnyDagRunning_def
  trigger_request_def build_payload_def error_status_def dag_runs_def

lemma http_sent: "sent (snd (http cfg w)) = sent w @ [cfg]"
  by (simp add: http_def http_send_def http_receive_def Let_def split: list.splits sum.splits)

lemma http_error_config: "http cfg w = (Inl error, w') \<Longrightarrow> err_config error = cfg"
  by (auto simp: http_def http_send_def http_receive_def Let_def split: list.splits sum.splits)

lemma http_use_jwt: "use_jwt_auth (snd (http cfg w)) = use_jwt_auth w"
  by (simp add: http_def http_send_def http_receive_def Let_def split: list.splits sum.splits)

lemma getJWTToken_valid: "token_valid w \<Longrightarrow> getJWTToken w = (Inr (jwtToken w), w)"
  by (simp add: getJWTToken_def getJWTToken_begin_def)

lemma getJWTToken_login:
  "\<not> token_valid w \<Longrightarrow> getJWTToken w = getJWTToken_resume (http auth_request w)"
  by (simp add: getJWTToken_def getJWTToken_begin_def http_def)

lemma getJWTToken_resume_sent: "sent (snd (getJWTToken_resume rw)) = sent (snd rw)"
  by (simp add: getJWTToken_resume_def Let_def split: prod.splits sum.splits)

lemma getJWTToken_resume_use_jwt: "use_jwt_auth (snd (getJWTToken_resume rw)) = use_jwt_auth (snd rw)"
  by (simp add: getJWTToken_resume_def Let_def split: prod.splits sum.splits)

lemma getJWTToken_resume_error:
  "getJWTToken_resume rw = (Inl error, w') \<Longrightarrow> rw = (Inl error, w')"
  by (auto simp: getJWTToken_resume_def Let_def split: prod.splits sum.splits)

lemma getJWTToken_sent:
  "sent (snd (getJWTToken w)) = (if token_valid w then sent w else sent w @ [auth_request])"
  by (simp add: getJWTToken_valid getJWTToken_login getJWTToken_resume_sent http_sent)

lemma getJWTToken_use_jwt: "use_jwt_auth (snd (getJWTToken w)) = use_jwt_auth w"
  by (cases "token_valid w")
     (simp_all add: getJWTToken_valid getJWTToken_login getJWTToken_resume_use_jwt http_use_jwt)

lemma getJWTToken_error_config:
  "getJWTToken w = (Inl error, w') \<Longrightarrow> err_config error = auth_request"
  by (cases "token_valid w")
     (auto simp: getJWTToken_valid getJWTToken_login dest!: getJWTToken_resume_error
        dest: http_error_config)

lemma getJWTToken_result_cached:
  "getJWTToken w = (Inr token, w') \<Longrightarrow> jwtToken w' = token"
  by (cases "token_valid w")
     (auto simp: getJWTToken_valid getJWTToken_login getJWTToken_resume_def Let_def
        split: prod.splits sum.splits)

lemma count_sent_append:
  "sent w' = sent w @ [c] \<Longrightarrow>
     count_sent rq w' = count_sent rq w + (if request c = rq then 1 else 0)"
  by (simp add: count_sent_def)

lemma getJWTToken_count:
  "rq \<noteq> PostAuthToken \<Longrightarrow> count_sent rq (snd (getJWTToken w)) = count_sent rq w"
  by (simp add: count_sent_def getJWTToken_sent auth_request_def)

lemma invalidate_count: "count_sent rq (invalidate w) = count_sent rq w"
  by (simp add: count_sent_def invalidate_def)

lemma invalidate_use_jwt: "use_jwt_auth (invalidate w) = use_jwt_auth w"
  by (simp add: invalidate_def)

lemma invalidate_sent: "sent (invalidate w) = sent w"
  by (simp add: invalidate_def)

lemma invalidate_not_valid: "\<not> token_valid (invalidate w)"
  by (simp add: token_valid_def invalidate_def)

lemma request_interceptor_cases:
  obtains (failed) error w' where "request_interceptor cfg w = (Inl error, w')"
      "getJWTToken w = (Inl error, w')" "use_jwt_auth w"
  | (bearer) token w' where "request_interceptor cfg w = (Inr (cfg\<lparr>authorization := Bearer token\<rparr>), w')"
      "getJWTToken w = (Inr token, w')" "use_jwt_auth w"
  | (basic) "request_interceptor cfg w = (Inr (cfg\<lparr>authorization := Basic\<rparr>), w)"
      "\<not> use_jwt_auth w"
  by (cases "use_jwt_auth w"; cases "getJWTToken w"; cases "fst (getJWTToken w)")
     (auto simp: request_interceptor_def)

lemma request_interceptor_count:
  "rq \<noteq> PostAuthToken \<Longrightarrow> count_sent rq (snd (request_interceptor cfg w)) = count_sent rq w"
  using getJWTToken_count [of rq w]
  by (cases cfg w rule: request_interceptor_cases) auto

lemma request_interceptor_use_jwt:
  "use_jwt_auth (snd (request_interceptor cfg w)) = use_jwt_auth w"
  using getJWTToken_use_jwt [of w]
  by (cases cfg w rule: request_interceptor_cases) auto

lemma request_interceptor_config:
  "request_interceptor cfg w = (Inr cfg', w') \<Longrightarrow>
     request cfg' = request cfg \<and> retry cfg' = retry cfg"
  by (cases cfg w rule: request_interceptor_cases) auto

lemma request_interceptor_error:
  "request_interceptor cfg w = (Inl error, w') \<Longrightarrow> err_config error = auth_request"
  by (cases cfg w rule: request_interceptor_cases) (auto dest: getJWTToken_error_config)

lemma attempt_cases:
  obtains (no_token) error w' where "attempt cfg w = (Inl error, w')"
      "request_interceptor cfg w = (Inl error, w')"
  | (dispatched) cfg' w' where "request_interceptor cfg w = (Inr cfg', w')"
      "attempt cfg w = http cfg' w'"
  by (cases "request_interceptor cfg w"; cases "fst (request_interceptor cfg w)")
     (auto simp: attempt_def)

lemma attempt_count_other:
  assumes "rq \<noteq> PostAuthToken" "request cfg \<noteq> rq"
  shows "count_sent rq (snd (attempt cfg w)) = count_sent rq w"
proof (cases cfg w rule: attempt_cases)
  case (no_token error w')
  with request_interceptor_count [OF assms(1), of cfg w] show ?thesis by simp
next
  case (dispatched cfg' w')
  with request_interceptor_count [OF assms(1), of cfg w] request_interceptor_config [of cfg w cfg' w']
    assms(2) count_sent_append [OF http_sent, of rq cfg' w']
  show ?thesis by simp
qed

lemma attempt_count_le:
  assumes "rq \<noteq> PostAuthToken"
  shows "count_sent rq (snd (attempt cfg w)) \<le> count_sent rq w + 1"
proof (cases cfg w rule: attempt_cases)
  case (no_token error w')
  with request_interceptor_count [OF assms(1), of cfg w] show ?thesis by simp
next
  case (dispatched cfg' w')
  with request_interceptor_count [OF assms(1), of cfg w]
    count_sent_append [OF http_sent, of rq cfg' w']
  show ?thesis by simp
qed

lemma attempt_use_jwt: "use_jwt_auth (snd (attempt cfg w)) = use_jwt_auth w"
  using request_interceptor_use_jwt [of cfg w]
  by (cases cfg w rule: attempt_cases) (auto simp: http_use_jwt)

lemma attempt_error_config:
  assumes "attempt cfg w = (Inl error, w')"
  shows "err_config error = auth_request \<or>
         (request (err_config error) = request cfg \<and> retry (err_config error) = retry cfg)"
proof (cases cfg w rule: attempt_cases)
  case (no_token error' w'')
  with assms show ?thesis by (auto dest: request_interceptor_error)
next
  case (dispatched cfg' w'')
  with assms have "err_config error = cfg'" by (auto dest: http_error_config)
  with dispatched request_interceptor_config [of cfg w cfg' w''] show ?thesis by simp
qed

lemma response_error_interceptor_cases:
  obtains (pass) "response_error_interceptor error w = (Reject error, w)"
      "\<not> (err_status error = Some 401 \<and> \<not> retry (err_config error))"
  | (refresh_failed) refreshError w' where
      "response_error_interceptor error w = (Reject refreshError, w')"
      "err_status error = Some 401" "\<not> retry (err_config error)"
      "getJWTToken (invalidate w) = (Inl refreshError, w')"
  | (resend) token w' where
      "response_error_interceptor error w
         = (Resend ((err_config error)\<lparr>retry := True, authorization := Bearer token\<rparr>), w')"
      "err_status error = Some 401" "\<not> retry (err_config error)"
      "getJWTToken (invalidate w) = (Inr token, w')"
  by (cases "err_status error = Some 401 \<and> \<not> retry (err_config error)";
      cases "getJWTToken (invalidate w)"; cases "fst (getJWTToken (invalidate w))")
     (auto simp: response_error_interceptor_def Let_def)

lemma response_error_interceptor_count:
  assumes "rq \<noteq> PostAuthToken"
  shows "count_sent rq (snd (response_error_interceptor error w)) = count_sent rq w"
  using getJWTToken_count [OF assms, of "invalidate w"]
  by (cases rule: response_error_interceptor_cases [where error = error and w = w]) (auto simp: invalidate_count)

lemma response_error_interceptor_use_jwt:
  "use_jwt_auth (snd (response_error_interceptor error w)) = use_jwt_auth w"
  using getJWTToken_use_jwt [of "invalidate w"]
  by (cases rule: response_error_interceptor_cases [where error = error and w = w]) (auto simp: invalidate_use_jwt)

lemma airflowAPI_count_other:
  "rq \<noteq> PostAuthToken \<Longrightarrow> request cfg \<noteq> rq \<Longrightarrow>
     count_sent rq (snd (airflowAPI cfg w)) = count_sent rq w"
proof (induction cfg w rule: airflowAPI.induct)
  case (1 cfg w)
  obtain r w1 where a: "attempt cfg w = (r, w1)" by (cases "attempt cfg w")
  with attempt_count_other [OF "1.prems", of w] have c1: "count_sent rq w1 = count_sent rq w"
    by simp
  show ?case
  proof (cases r)
    case (Inr d)
    with a c1 show ?thesis by (simp add: airflowAPI.simps [of cfg w])
  next
    case (Inl error)
    from a Inl attempt_error_config [of cfg w error w1] "1.prems"
    have rqe: "request (err_config error) \<noteq> rq" by (auto simp: auth_request_def)
    from response_error_interceptor_count [OF "1.prems"(1), of error w1]
    have c2: "count_sent rq (snd (response_error_interceptor error w1)) = count_sent rq w1" .
    show ?thesis
    proof (cases rule: response_error_interceptor_cases [where error = error and w = w1])
      case pass
      with a Inl c1 show ?thesis by (simp add: airflowAPI.simps [of cfg w])
    next
      case (refresh_failed refreshError w')
      with a Inl c1 c2 show ?thesis by (simp add: airflowAPI.simps [of cfg w])
    next
      case (resend token w')
      let ?cfg' = "(err_config error)\<lparr>retry := True, authorization := Bearer token\<rparr>"
      from rqe have "request ?cfg' \<noteq> rq" by simp
      with "1.IH" [of r w1 error "Resend ?cfg'" w' ?cfg'] a Inl resend "1.prems"(1)
      have "count_sent rq (snd (airflowAPI ?cfg' w')) = count_sent rq w'" by simp
      with a Inl resend c1 c2 show ?thesis by (simp add: airflowAPI.simps [of cfg w])
    qed
  qed
qed

lemma airflowAPI_use_jwt: "use_jwt_auth (snd (airflowAPI cfg w)) = use_jwt_auth w"
proof (induction cfg w rule: airflowAPI.induct)
  case (1 cfg w)
  obtain r w1 where a: "attempt cfg w = (r, w1)" by (cases "attempt cfg w")
  with attempt_use_jwt [of cfg w] have u1: "use_jwt_auth w1 = use_jwt_auth w" by simp
  show ?case
  proof (cases r)
    case (Inr d)
    with a u1 show ?thesis by (simp add: airflowAPI.simps [of cfg w])
  next
    case (Inl error)
    from response_error_interceptor_use_jwt [of error w1]
    have u2: "use_jwt_auth (snd (response_error_interceptor error w1)) = use_jwt_auth w1" .
    show ?thesis
    proof (cases rule: response_error_interceptor_cases [where error = error and w = w1])
      case pass
      with a Inl u1 show ?thesis by (simp add: airflowAPI.simps [of cfg w])
    next
      case (refresh_failed refreshError w')
      with a Inl u1 u2 show ?thesis by (simp add: airflowAPI.simps [of cfg w])
    next
      case (resend token w')
      let ?cfg' = "(err_config error)\<lparr>retry := True, authorization := Bearer token\<rparr>"
      from "1.IH" [of r w1 error "Resend ?cfg'" w' ?cfg'] a Inl resend
      have "use_jwt_auth (snd (airflowAPI ?cfg' w')) = use_jwt_auth w'" by simp
      with a Inl resend u1 u2 show ?thesis by (simp add: airflowAPI.simps [of cfg w])
    qed
  qed
qed

lemma airflowAPI_count_retry:
  assumes "rq \<noteq> PostAuthToken" "retry cfg"
  shows "count_sent rq (snd (airflowAPI cfg w)) \<le> count_sent rq w + 1"
proof -
  obtain r w1 where a: "attempt cfg w = (r, w1)" by (cases "attempt cfg w")
  with attempt_count_le [OF assms(1), of cfg w] have c1: "count_sent rq w1 \<le> count_sent rq w + 1"
    by simp
  show ?thesis
  proof (cases r)
    case (Inr d)
    with a c1 show ?thesis by (simp add: airflowAPI.simps [of cfg w])
  next
    case (Inl error)
    from response_error_interceptor_count [OF assms(1), of error w1]
    have c2: "count_sent rq (snd (response_error_interceptor error w1)) = count_sent rq w1" .
    show ?thesis
    proof (cases rule: response_error_interceptor_cases [where error = error and w = w1])
      case pass
      with a Inl c1 show ?thesis by (simp add: airflowAPI.simps [of cfg w])
    next
      case (refresh_failed refreshError w')
      with a Inl c1 c2 show ?thesis by (simp add: airflowAPI.simps [of cfg w])
    next
      case (resend token w')
      let ?cfg' = "(err_config error)\<lparr>retry := True, authorization := Bearer token\<rparr>"
      from a Inl attempt_error_config [of cfg w error w1] resend(3) assms(2)
      have "err_config error = auth_request" by auto
      then have "request ?cfg' \<noteq> rq" using assms(1) by (simp add: auth_request_def)
      from airflowAPI_count_other [OF assms(1) this, of w']
      have "count_sent rq (snd (airflowAPI ?cfg' w')) = count_sent rq w'" .
      with a Inl resend c1 c2 show ?thesis by (simp add: airflowAPI.simps [of cfg w])
    qed
  qed
qed

lemma airflowAPI_count_le:
  assumes "rq \<noteq> PostAuthToken"
  shows "count_sent rq (snd (airflowAPI cfg w)) \<le> count_sent rq w + 2"
proof -
  obtain r w1 where a: "attempt cfg w = (r, w1)" by (cases "attempt cfg w")
  with attempt_count_le [OF assms(1), of cfg w] have c1: "count_sent rq w1 \<le> count_sent rq w + 1"
    by simp
  show ?thesis
  proof (cases r)
    case (Inr d)
    with a c1 show ?thesis by (simp add: airflowAPI.simps [of cfg w])
  next
    case (Inl error)
    from response_error_interceptor_count [OF assms(1), of error w1]
    have c2: "count_sent rq (snd (response_error_interceptor error w1)) = count_sent rq w1" .
    show ?thesis
    proof (cases rule: response_error_interceptor_cases [where error = error and w = w1])
      case pass
      with a Inl c1 show ?thesis by (simp add: airflowAPI.simps [of cfg w])
    next
      case (refresh_failed refreshError w')
      with a Inl c1 c2 show ?thesis by (simp add: airflowAPI.simps [of cfg w])
    next
      case (resend token w')
      let ?cfg' = "(err_config error)\<lparr>retry := True, authorization := Bearer token\<rparr>"
      have "retry ?cfg'" by simp
      from airflowAPI_count_retry [OF assms(1) this, of w']
      have "count_sent rq (snd (airflowAPI ?cfg' w')) \<le> count_sent rq w' + 1" .
      with a Inl resend c1 c2 show ?thesis by (simp add: airflowAPI.simps [of cfg w])
    qed
  qed
qed

lemma fresh_sent_refl: "sent w' = sent w \<Longrightarrow> fresh_sent rq w w'"
  by (simp add: fresh_sent_def)

lemma fresh_sent_trans: "fresh_sent rq w w1 \<Longrightarrow> fresh_sent rq w1 w2 \<Longrightarrow> fresh_sent rq w w2"
  by (fastforce simp: fresh_sent_def)

lemma fresh_sent_auth: "fresh_sent PostAuthToken w w' \<Longrightarrow> fresh_sent rq w w'"
  by (auto simp: fresh_sent_def)

lemma fresh_sent_one:
  "sent w' = sent w @ [c] \<Longrightarrow> request c = rq \<or> request c = PostAuthToken \<Longrightarrow> fresh_sent rq w w'"
  by (simp add: fresh_sent_def)

lemma fresh_sent_count_mono: "fresh_sent rq w w' \<Longrightarrow> count_sent rq' w \<le> count_sent rq' w'"
  by (auto simp: fresh_sent_def count_sent_def)

lemma fresh_sent_no_trigger:
  "fresh_sent GetDagRuns w w' \<Longrightarrow> filter is_trigger (sent w') = filter is_trigger (sent w)"
  by (fastforce simp: fresh_sent_def is_trigger_def filter_empty_conv split: request.splits)

lemma getJWTToken_fresh: "fresh_sent rq w (snd (getJWTToken w))"
  by (cases "token_valid w")
     (auto simp: getJWTToken_sent auth_request_def intro: fresh_sent_refl fresh_sent_one)

lemma request_interceptor_fresh: "fresh_sent rq w (snd (request_interceptor cfg w))"
  using getJWTToken_fresh [of rq w]
  by (cases cfg w rule: request_interceptor_cases) (auto intro: fresh_sent_refl)

lemma attempt_fresh: "fresh_sent (request cfg) w (snd (attempt cfg w))"
proof (cases cfg w rule: attempt_cases)
  case (no_token error w')
  with request_interceptor_fresh [of "request cfg" w cfg] show ?thesis by simp
next
  case (dispatched cfg' w')
  from dispatched(1) have "request cfg' = request cfg" by (simp add: request_interceptor_config)
  with http_sent [of cfg' w'] have "fresh_sent (request cfg) w' (snd (http cfg' w'))"
    by (auto intro: fresh_sent_one)
  with request_interceptor_fresh [of "request cfg" w cfg] dispatched show ?thesis
    by (auto intro: fresh_sent_trans)
qed

lemma response_error_interceptor_fresh:
  "fresh_sent rq w (snd (response_error_interceptor error w))"
  using getJWTToken_fresh [of rq "invalidate w"]
  by (cases rule: response_error_interceptor_cases [where error = error and w = w])
     (auto simp: fresh_sent_def invalidate_sent)

lemma airflowAPI_fresh: "fresh_sent (request cfg) w (snd (airflowAPI cfg w))"
proof (induction cfg w rule: airflowAPI.induct)
  case (1 cfg w)
  obtain r w1 where a: "attempt cfg w = (r, w1)" by (cases "attempt cfg w")
  with attempt_fresh [of cfg w] have f1: "fresh_sent (request cfg) w w1" by simp
  show ?case
  proof (cases r)
    case (Inr d)
    with a f1 show ?thesis by (simp add: airflowAPI.simps [of cfg w])
  next
    case (Inl error)
    from response_error_interceptor_fresh [of "request cfg" w1 error]
    have f2: "fresh_sent (request cfg) w1 (snd (response_error_interceptor error w1))" .
    show ?thesis
    proof (cases rule: response_error_interceptor_cases [where error = error and w = w1])
      case pass
      with a Inl f1 show ?thesis by (simp add: airflowAPI.simps [of cfg w])
    next
      case (refresh_failed refreshError w')
      with a Inl f1 f2 show ?thesis
        by (auto simp: airflowAPI.simps [of cfg w] intro: fresh_sent_trans)
    next
      case (resend token w')
      let ?cfg' = "(err_config error)\<lparr>retry := True, authorization := Bearer token\<rparr>"
      from "1.IH" [of r w1 error "Resend ?cfg'" w' ?cfg'] a Inl resend
      have ih: "fresh_sent (request (err_config error)) w' (snd (airflowAPI ?cfg' w'))" by simp
      from a Inl attempt_error_config [of cfg w error w1]
      have "request (err_config error) = PostAuthToken \<or> request (err_config error) = request cfg"
        by (auto simp: auth_request_def)
      with ih have "fresh_sent (request cfg) w' (snd (airflowAPI ?cfg' w'))"
        by (auto intro: fresh_sent_auth)
      moreover from f1 f2 resend have "fresh_sent (request cfg) w w'"
        by (auto intro: fresh_sent_trans)
      ultimately have "fresh_sent (request cfg) w (snd (airflowAPI ?cfg' w'))"
        by (rule fresh_sent_trans [rotated])
      with a Inl resend show ?thesis by (simp add: airflowAPI.simps [of cfg w])
    qed
  qed
qed

lemma airflowAPI_retried:
  assumes "retry cfg" "\<not> use_jwt_auth w \<or> token_valid w"
  shows "airflowAPI cfg w
           = http (cfg\<lparr>authorization := (if use_jwt_auth w then Bearer (jwtToken w) else Basic)\<rparr>) w"
proof -
  let ?cfg' = "cfg\<lparr>authorization := (if use_jwt_auth w then Bearer (jwtToken w) else Basic)\<rparr>"
  from assms(2) have ri: "request_interceptor cfg w = (Inr ?cfg', w)"
    by (auto simp: request_interceptor_def getJWTToken_valid)
  then have a: "attempt cfg w = http ?cfg' w" by (simp add: attempt_def)
  obtain r w1 where h: "http ?cfg' w = (r, w1)" by (cases "http ?cfg' w")
  show ?thesis
  proof (cases r)
    case (Inr d)
    with a h show ?thesis by (simp add: airflowAPI.simps [of cfg w])
  next
    case (Inl error)
    with h have "err_config error = ?cfg'" by (auto dest: http_error_config)
    with assms(1) have "response_error_interceptor error w1 = (Reject error, w1)"
      by (simp add: response_error_interceptor_def)
    with a h Inl show ?thesis by (simp add: airflowAPI.simps [of cfg w])
  qed
qed

lemma airflowAPI_after_401:
  assumes ri: "request_interceptor cfg w = (Inr cfg1, w0)"
    and h: "http cfg1 w0 = (Inl error, w1)"
    and st: "err_status error = Some 401"
    and nr: "\<not> retry cfg"
  shows "airflowAPI cfg w =
           (case getJWTToken (invalidate w1) of
              (Inl refreshError, w2) \<Rightarrow> (Inl refreshError, w2)
            | (Inr token, w2) \<Rightarrow>
                airflowAPI (cfg1\<lparr>retry := True, authorization := Bearer token\<rparr>) w2)"
proof -
  from ri h have a: "attempt cfg w = (Inl error, w1)" by (simp add: attempt_def)
  from h have ec: "err_config error = cfg1" by (rule http_error_config)
  from ri nr have "\<not> retry cfg1" by (simp add: request_interceptor_config)
  with st ec have "response_error_interceptor error w1 =
      (case getJWTToken (invalidate w1) of
         (Inl refreshError, w2) \<Rightarrow> (Reject refreshError, w2)
       | (Inr token, w2) \<Rightarrow> (Resend (cfg1\<lparr>retry := True, authorization := Bearer token\<rparr>), w2))"
    by (simp add: response_error_interceptor_def)
  with a show ?thesis
    by (simp add: airflowAPI.simps [of cfg w] split: prod.splits sum.splits)
qed

lemma airflowAPI_dispatches:
  assumes "\<not> use_jwt_auth w \<or> token_valid w"
  shows "count_sent (request cfg) w < count_sent (request cfg) (snd (airflowAPI cfg w))"
proof -
  let ?cfg' = "cfg\<lparr>authorization := (if use_jwt_auth w then Bearer (jwtToken w) else Basic)\<rparr>"
  from assms have "request_interceptor cfg w = (Inr ?cfg', w)"
    by (auto simp: request_interceptor_def getJWTToken_valid)
  then have a: "attempt cfg w = http ?cfg' w" by (simp add: attempt_def)
  from count_sent_append [OF http_sent, of "request cfg" ?cfg' w]
  have c: "count_sent (request cfg) (snd (attempt cfg w)) = count_sent (request cfg) w + 1"
    by (simp add: a)
  obtain r w1 where p: "attempt cfg w = (r, w1)" by (cases "attempt cfg w")
  have "count_sent (request cfg) w1 \<le> count_sent (request cfg) (snd (airflowAPI cfg w))"
  proof (cases r)
    case (Inr d)
    with p show ?thesis by (simp add: airflowAPI.simps [of cfg w])
  next
    case (Inl error)
    show ?thesis
    proof (cases rule: response_error_interceptor_cases [where error = error and w = w1])
      case pass
      with p Inl show ?thesis by (simp add: airflowAPI.simps [of cfg w])
    next
      case (refresh_failed refreshError w')
      with response_error_interceptor_fresh [of "request cfg" w1 error]
      have "count_sent (request cfg) w1 \<le> count_sent (request cfg) w'"
        by (auto dest: fresh_sent_count_mono)
      with p Inl refresh_failed show ?thesis by (simp add: airflowAPI.simps [of cfg w])
    next
      case (resend token w')
      let ?cfg2 = "(err_config error)\<lparr>retry := True, authorization := Bearer token\<rparr>"
      from resend response_error_interceptor_fresh [of "request cfg" w1 error]
      have "count_sent (request cfg) w1 \<le> count_sent (request cfg) w'"
        by (auto dest: fresh_sent_count_mono)
      also from airflowAPI_fresh [of ?cfg2 w']
      have "\<dots> \<le> count_sent (request cfg) (snd (airflowAPI ?cfg2 w'))"
        by (rule fresh_sent_count_mono)
      finally show ?thesis using p Inl resend by (simp add: airflowAPI.simps [of cfg w])
    qed
  qed
  with c p show ?thesis by simp
qed

text \<open>
  A request that is not the login and that is itself answered with 401: the credential is
  cleared and one login is sent; a failed login is the result; after a login that leaves a
  valid credential the request goes out once more, and what comes back is the result.
\<close>

lemma airflowAPI_after_dispatch_401:
  assumes "request cfg \<noteq> PostAuthToken"
  shows "count_sent (request cfg) (snd (airflowAPI cfg w)) \<le> count_sent (request cfg) w + 2 \<and>
         (\<forall>cfg1 w0 error w1.
            \<not> retry cfg \<and> request_interceptor cfg w = (Inr cfg1, w0) \<and>
            http cfg1 w0 = (Inl error, w1) \<and> err_status error = Some 401 \<longrightarrow>
              \<not> token_valid (invalidate w1) \<and>
              sent (snd (getJWTToken (invalidate w1))) = sent w1 @ [auth_request] \<and>
              (\<forall>refreshError w2.
                 getJWTToken (invalidate w1) = (Inl refreshError, w2) \<longrightarrow>
                   airflowAPI cfg w = (Inl refreshError, w2) \<and>
                   count_sent (request cfg) w2 = count_sent (request cfg) w + 1) \<and>
              (\<forall>token w2.
                 getJWTToken (invalidate w1) = (Inr token, w2) \<and> token_valid w2 \<longrightarrow>
                   airflowAPI cfg w =
                     http (cfg1\<lparr>retry := True,
                                authorization :=
                                  (if use_jwt_auth w then Bearer token else Basic)\<rparr>) w2 \<and>
                   count_sent (request cfg) (snd (airflowAPI cfg w))
                     = count_sent (request cfg) w + 2))"
proof (intro conjI allI impI)
  show "count_sent (request cfg) (snd (airflowAPI cfg w)) \<le> count_sent (request cfg) w + 2"
    using assms by (rule airflowAPI_count_le)
next
  fix cfg1 w0 error w1
  assume h: "\<not> retry cfg \<and> request_interceptor cfg w = (Inr cfg1, w0) \<and>
             http cfg1 w0 = (Inl error, w1) \<and> err_status error = Some 401"
  show "\<not> token_valid (invalidate w1)" by (rule invalidate_not_valid)
  show "sent (snd (getJWTToken (invalidate w1))) = sent w1 @ [auth_request]"
    by (simp add: getJWTToken_sent invalidate_not_valid invalidate_sent)
  from h have ri: "request_interceptor cfg w = (Inr cfg1, w0)"
    and ht: "http cfg1 w0 = (Inl error, w1)" and st: "err_status error = Some 401"
    and nr: "\<not> retry cfg" by simp_all
  note step = airflowAPI_after_401 [OF ri ht st nr]
  from ri have rq1: "request cfg1 = request cfg" by (simp add: request_interceptor_config)
  from request_interceptor_count [OF assms, of cfg w] ri
  have c0: "count_sent (request cfg) w0 = count_sent (request cfg) w" by simp
  from count_sent_append [OF http_sent, of "request cfg" cfg1 w0] ht rq1
  have c1: "count_sent (request cfg) w1 = count_sent (request cfg) w0 + 1" by simp
  from request_interceptor_use_jwt [of cfg w] ri have u0: "use_jwt_auth w0 = use_jwt_auth w"
    by simp
  from http_use_jwt [of cfg1 w0] ht have u1: "use_jwt_auth w1 = use_jwt_auth w0" by simp
  {
    fix refreshError w2
    assume g: "getJWTToken (invalidate w1) = (Inl refreshError, w2)"
    with step show "airflowAPI cfg w = (Inl refreshError, w2)" by simp
    from getJWTToken_count [OF assms, of "invalidate w1"] g
    have "count_sent (request cfg) w2 = count_sent (request cfg) w1"
      by (simp add: invalidate_count)
    with c0 c1 show "count_sent (request cfg) w2 = count_sent (request cfg) w + 1" by simp
  }
  {
    fix token w2
    assume g: "getJWTToken (invalidate w1) = (Inr token, w2) \<and> token_valid w2"
    let ?cfg2 = "cfg1\<lparr>retry := True, authorization := Bearer token\<rparr>"
    let ?cfg3 = "cfg1\<lparr>retry := True,
                      authorization := (if use_jwt_auth w then Bearer token else Basic)\<rparr>"
    from g have tk: "jwtToken w2 = token" by (auto dest: getJWTToken_result_cached)
    from getJWTToken_use_jwt [of "invalidate w1"] g u0 u1
    have u2: "use_jwt_auth w2 = use_jwt_auth w" by (simp add: invalidate_use_jwt)
    from g have "\<not> use_jwt_auth w2 \<or> token_valid w2" by simp
    from airflowAPI_retried [OF _ this, of ?cfg2] tk u2
    have r: "airflowAPI ?cfg2 w2 = http ?cfg3 w2" by simp
    with step g show e: "airflowAPI cfg w = http ?cfg3 w2" by simp
    from getJWTToken_count [OF assms, of "invalidate w1"] g
    have "count_sent (request cfg) w2 = count_sent (request cfg) w1"
      by (simp add: invalidate_count)
    moreover from count_sent_append [OF http_sent, of "request cfg" ?cfg3 w2] rq1
    have "count_sent (request cfg) (snd (http ?cfg3 w2)) = count_sent (request cfg) w2 + 1"
      by simp
    ultimately show "count_sent (request cfg) (snd (airflowAPI cfg w))
                       = count_sent (request cfg) w + 2"
      using e c0 c1 by simp
  }
qed

section \<open>Lemmas about the gateway service\<close>

lemma isAnyDagRunning_blocked_shape:
  assumes "isAnyDagRunning w = (runningStatus, w1)" "isRunning runningStatus"
  shows "(inCooldown runningStatus \<longrightarrow> cooldownInfo runningStatus \<noteq> None) \<and>
         (\<not> inCooldown runningStatus \<longrightarrow> runningDags runningStatus \<noteq> [])"
proof (cases "airflowAPI list_request w")
  case (Pair r w')
  show ?thesis
  proof (cases r)
    case (Inl error)
    with Pair assms show ?thesis by (auto simp: isAnyDagRunning_def not_running_def)
  next
    case (Inr d)
    with Pair assms have "runningStatus = gate (dag_runs d) (clock w')"
      by (auto simp: isAnyDagRunning_def)
    with assms(2) gate_blocked_shape [of "dag_runs d" "clock w'"] show ?thesis by simp
  qed
qed

lemma isAnyDagRunning_world: "snd (isAnyDagRunning w) = snd (airflowAPI list_request w)"
proof (cases "airflowAPI list_request w")
  case (Pair r w')
  then show ?thesis by (cases r) (simp_all add: isAnyDagRunning_def)
qed

lemma isAnyDagRunning_fresh: "fresh_sent GetDagRuns w (snd (isAnyDagRunning w))"
  using airflowAPI_fresh [of list_request w]
  by (simp add: isAnyDagRunning_world) (simp add: list_request_def)

lemma isAnyDagRunning_use_jwt: "use_jwt_auth (snd (isAnyDagRunning w)) = use_jwt_auth w"
  by (simp add: isAnyDagRunning_world airflowAPI_use_jwt)

text \<open>
  The handler by cases of the decision: blocked, it answers 409 and sends nothing more;
  allowed, it answers with the outcome of \<^verbatim>\<open>airflowAPI\<close> on the trigger request.
\<close>

lemma trigger_dag_outcomes:
  assumes "isAnyDagRunning w = (runningStatus, w1)"
    and "trigger_dag dagId conf logicalDate w = (res, w2)"
  shows "(isRunning runningStatus \<longrightarrow>
            status_code res = 409 \<and> w2 = w1 \<and>
            filter is_trigger (sent w2) = filter is_trigger (sent w) \<and>
            (inCooldown runningStatus \<longrightarrow>
               (\<exists>ci. cooldownInfo runningStatus = Some ci \<and>
                  body res = CooldownConflict (last_dag_id ci) (last_dag_state ci)
                               (ci_end_date ci) (minutes_since_completion ci)
                               (remaining_cooldown_minutes ci) 15)) \<and>
            (\<not> inCooldown runningStatus \<longrightarrow>
               (\<exists>b. first_running runningStatus = Some b \<and>
                  body res = RunningConflict b (count runningStatus)))) \<and>
         (\<not> isRunning runningStatus \<longrightarrow>
            (\<exists>cfg. cfg = trigger_request dagId (build_payload (use_jwt_auth w) conf logicalDate) \<and>
               w2 = snd (airflowAPI cfg w1) \<and>
               (\<forall>d. fst (airflowAPI cfg w1) = Inr d \<longrightarrow>
                  res = \<lparr>status_code = 200, body = RunCreated d\<rparr>) \<and>
               (\<forall>error. fst (airflowAPI cfg w1) = Inl error \<longrightarrow>
                  res = \<lparr>status_code = error_status error,
                         body = ErrorBody (err_details error)\<rparr>) \<and>
               (\<not> use_jwt_auth w \<or> token_valid w1 \<longrightarrow>
                  count_sent (request cfg) w1 < count_sent (request cfg) w2) \<and>
               count_sent (request cfg) w2 \<le> count_sent (request cfg) w1 + 2))"
proof (intro conjI impI)
  assume r: "isRunning runningStatus"
  note shape = isAnyDagRunning_blocked_shape [OF assms(1) r]
  from isAnyDagRunning_fresh [of w] assms(1) have f: "fresh_sent GetDagRuns w w1" by simp
  show "status_code res = 409"
    using assms r shape
    by (cases "inCooldown runningStatus")
       (auto simp: trigger_dag_def split: option.splits list.splits)
  show e: "w2 = w1"
    using assms r by (auto simp: trigger_dag_def split: option.splits list.splits if_splits)
  from f e show "filter is_trigger (sent w2) = filter is_trigger (sent w)"
    by (simp add: fresh_sent_no_trigger)
  {
    assume "inCooldown runningStatus"
    with assms r shape
    show "\<exists>ci. cooldownInfo runningStatus = Some ci \<and>
            body res = CooldownConflict (last_dag_id ci) (last_dag_state ci)
                         (ci_end_date ci) (minutes_since_completion ci)
                         (remaining_cooldown_minutes ci) 15"
      by (auto simp: trigger_dag_def split: option.splits)
  }
  {
    assume "\<not> inCooldown runningStatus"
    with assms r shape
    show "\<exists>b. first_running runningStatus = Some b \<and>
            body res = RunningConflict b (count runningStatus)"
      by (auto simp: trigger_dag_def first_running_def split: list.splits)
  }
next
  assume n: "\<not> isRunning runningStatus"
  let ?cfg = "trigger_request dagId (build_payload (use_jwt_auth w) conf logicalDate)"
  from isAnyDagRunning_use_jwt [of w] assms(1) have u: "use_jwt_auth w1 = use_jwt_auth w" by simp
  from assms n u have t: "(res, w2) =
      (case airflowAPI ?cfg w1 of
         (Inr d, w') \<Rightarrow> (\<lparr>status_code = 200, body = RunCreated d\<rparr>, w')
       | (Inl error, w') \<Rightarrow>
           (\<lparr>status_code = error_status error, body = ErrorBody (err_details error)\<rparr>, w'))"
    by (simp add: trigger_dag_def)
  have rq: "request ?cfg \<noteq> PostAuthToken" by (simp add: trigger_request_def)
  have 1: "w2 = snd (airflowAPI ?cfg w1)"
    using t by (auto split: prod.splits sum.splits)
  have 2: "\<forall>d. fst (airflowAPI ?cfg w1) = Inr d \<longrightarrow> res = \<lparr>status_code = 200, body = RunCreated d\<rparr>"
    using t by (auto split: prod.splits sum.splits)
  have 3: "\<forall>error. fst (airflowAPI ?cfg w1) = Inl error \<longrightarrow>
             res = \<lparr>status_code = error_status error, body = ErrorBody (err_details error)\<rparr>"
    using t by (auto split: prod.splits sum.splits)
  have 4: "\<not> use_jwt_auth w \<or> token_valid w1 \<longrightarrow>
             count_sent (request ?cfg) w1 < count_sent (request ?cfg) w2"
    using airflowAPI_dispatches [of w1 ?cfg] u 1 by simp
  have 5: "count_sent (request ?cfg) w2 \<le> count_sent (request ?cfg) w1 + 2"
    using airflowAPI_count_le [OF rq, of ?cfg w1] 1 by simp
  from 1 2 3 4 5
  show "\<exists>cfg. cfg = trigger_request dagId (build_payload (use_jwt_auth w) conf logicalDate) \<and>
               w2 = snd (airflowAPI cfg w1) \<and>
               (\<forall>d. fst (airflowAPI cfg w1) = Inr d \<longrightarrow>
                  res = \<lparr>status_code = 200, body = RunCreated d\<rparr>) \<and>
               (\<forall>error. fst (airflowAPI cfg w1) = Inl error \<longrightarrow>
                  res = \<lparr>status_code = error_status error,
                         body = ErrorBody (err_details error)\<rparr>) \<and>
               (\<not> use_jwt_auth w \<or> token_valid w1 \<longrightarrow>
                  count_sent (request cfg) w1 < count_sent (request cfg) w2) \<and>
               count_sent (request cfg) w2 \<le> count_sent (request cfg) w1 + 2"
    by blast
qed

section \<open>The claims\<close>

subsection \<open>C1: an Active record blocks\<close>



subsection \<open>C2: the cooldown after the last completed run\<close>




subsection \<open>C6: nothing active and no recent completion\<close>

text \<open>
  C6. With no Active record, if there is no Terminal record at all, or the Terminal record
  with the most recent end time ended at least the cooldown before now, the gate allows:
  it returns the idle result, neither running nor in cooldown. The empty list of records
  gives the same result.
\<close>

theorem gate_allows_when_idle:
  assumes "\<forall>r \<in> set rs. \<not> is_active r"
    and "filter is_completed rs = [] \<or>
         (\<exists>r t. most_recent_endedAt (filter is_completed rs) = Some r \<and>
                end_date r = DateMs t \<and> cooldownPeriod \<le> now - t)"
  shows "gate rs now = not_running \<and> \<not> isRunning (gate rs now) \<and>
         \<not> inCooldown (gate rs now) \<and> gate [] now = not_running"
proof -
  have "\<forall>x \<in> set rs. is_completed x \<longrightarrow> (\<forall>u. end_date x = DateMs u \<longrightarrow> cooldownPeriod \<le> now - u)"
  proof (intro ballI impI allI)
    fix x u
    assume x: "x \<in> set rs" "is_completed x" "end_date x = DateMs u"
    then have xin: "x \<in> set (filter is_completed rs)" by simp
    from x have "filter is_completed rs \<noteq> []" by (auto simp: filter_empty_conv)
    with assms(2) obtain r t where r: "most_recent_endedAt (filter is_completed rs) = Some r"
      "end_date r = DateMs t" "cooldownPeriod \<le> now - t" by auto
    from most_recent_endedAt_max [OF r(1,2) xin x(3)]
    have "u \<le> t" .
    with r(3) show "cooldownPeriod \<le> now - u" by simp
  qed
  with assms(1) have "gate rs now = not_running" by (rule gate_all_ended_long_ago)
  moreover have "gate [] now = not_running" by (simp add: gate_def)
  ultimately show ?thesis by (simp add: not_running_def)
qed

text \<open>
  The theorem at three records, none Active, the latest end 20 minutes before now.
\<close>

theorem gate_allows_when_idle_witness:
  "filter is_active runs_twenty_minutes = [] \<and>
   most_recent_endedAt (filter is_completed runs_twenty_minutes)
     = Some (run ''fault_a'' ''success'' (DateMs 8000000) (DateMs 8800000)) \<and>
   cooldownPeriod \<le> 10000000 - 8800000 \<and>
   gate runs_twenty_minutes 10000000 = not_running \<and> gate [] 10000000 = not_running"
proof -
  have a: "\<forall>r \<in> set runs_twenty_minutes. \<not> is_active r"
    by (simp add: runs_twenty_minutes_def run_def is_active_def)
  have m: "most_recent_endedAt (filter is_completed runs_twenty_minutes)
             = Some (run ''fault_a'' ''success'' (DateMs 8000000) (DateMs 8800000))"
    by (simp add: runs_twenty_minutes_def run_def is_completed_def ended_later_def)
  have e: "end_date (run ''fault_a'' ''success'' (DateMs 8000000) (DateMs 8800000)) = DateMs 8800000"
    by (simp add: run_def)
  have c: "cooldownPeriod \<le> 10000000 - 8800000" by (simp add: cooldownPeriod_def)
  from m e c have "filter is_completed runs_twenty_minutes = [] \<or>
         (\<exists>r t. most_recent_endedAt (filter is_completed runs_twenty_minutes) = Some r \<and>
                end_date r = DateMs t \<and> cooldownPeriod \<le> 10000000 - t)" by blast
  from gate_allows_when_idle [OF a this] a m c show ?thesis by simp
qed

subsection \<open>C7: exact comparison, rounded display\<close>

text \<open>
  C7. For the Terminal record the gate looks at, the decision compares the exact number of
  milliseconds since its end with 900000 (15 minutes): the gate blocks if and only if
  \<open>now - endTime < 900000\<close>. Only the reported numbers are rounded: the remaining
  minutes are the ceiling of \<open>(900000 - elapsed) / 60000\<close> and the minutes since
  completion the floor of \<open>elapsed / 60000\<close>. A record that ended exactly 5 minutes ago
  gives 10 remaining minutes.
\<close>

theorem cooldown_compares_exact_milliseconds:
  assumes "\<forall>r \<in> set rs. \<not> is_active r"
    and "find is_completed rs = Some r"
    and "end_date r = DateMs endTime"
  shows "cooldownPeriod = 900000 \<and>
         (isRunning (gate rs now) \<longleftrightarrow> now - endTime < 900000) \<and>
         (inCooldown (gate rs now) \<longleftrightarrow> now - endTime < 900000) \<and>
         (now - endTime < 900000 \<longrightarrow>
            (\<exists>ci. cooldownInfo (gate rs now) = Some ci \<and>
               remaining_cooldown_minutes ci
                 = \<lceil>(of_int (900000 - (now - endTime)) :: rat) / 60000\<rceil> \<and>
               minutes_since_completion ci = \<lfloor>(of_int (now - endTime) :: rat) / 60000\<rfloor> \<and>
               60000 * (remaining_cooldown_minutes ci - 1) < 900000 - (now - endTime) \<and>
               900000 - (now - endTime) \<le> 60000 * remaining_cooldown_minutes ci \<and>
               60000 * minutes_since_completion ci \<le> now - endTime \<and>
               now - endTime < 60000 * (minutes_since_completion ci + 1))) \<and>
         (now - endTime = 300000 \<longrightarrow>
            (\<exists>ci. cooldownInfo (gate rs now) = Some ci \<and>
               remaining_cooldown_minutes ci = 10 \<and> minutes_since_completion ci = 5))"
proof -
  let ?e = "now - endTime"
  have cp: "cooldownPeriod = 900000" by (simp add: cooldownPeriod_def)
  have g: "gate rs now =
             (if ?e < 900000 then
                \<lparr>isRunning = True, count = 0, runningDags = [], inCooldown = True,
                 cooldownInfo = Some
                   \<lparr>last_dag_id = dag_id r, last_dag_state = state r, ci_end_date = end_date r,
                    minutes_since_completion = ?e div 60000,
                    remaining_cooldown_minutes = - ((?e - 900000) div 60000)\<rparr>,
                 reason = Some ''cooldown''\<rparr>
              else not_running)"
    using assms by (simp add: gate_no_active cp)
  have c1: "- ((?e - 900000) div 60000) = \<lceil>(of_int (900000 - ?e) :: rat) / 60000\<rceil>"
  proof -
    have "(of_int (900000 - ?e) :: rat) / 60000 = - (of_int (?e - 900000) / of_int 60000)"
      by (simp add: field_simps)
    then show ?thesis unfolding ceiling_def by (simp only: floor_divide_of_int_eq minus_minus)
  qed
  have c2: "?e div 60000 = \<lfloor>(of_int ?e :: rat) / 60000\<rfloor>"
  proof -
    have "(of_int ?e :: rat) / 60000 = of_int ?e / of_int 60000" by simp
    then show ?thesis by (simp only: floor_divide_of_int_eq)
  qed
  have "- (900000 - ?e) = ?e - 900000" by simp
  with ceil_bounds [of "900000 - ?e"]
  have b1: "60000 * (- ((?e - 900000) div 60000) - 1) < 900000 - ?e"
    and b2: "900000 - ?e \<le> 60000 * (- ((?e - 900000) div 60000))" by simp_all
  from floor_bounds [of ?e]
  have b3: "60000 * (?e div 60000) \<le> ?e" and b4: "?e < 60000 * (?e div 60000 + 1)" by simp_all
  have p1: "isRunning (gate rs now) \<longleftrightarrow> ?e < 900000" by (simp add: g not_running_def)
  have p2: "inCooldown (gate rs now) \<longleftrightarrow> ?e < 900000" by (simp add: g not_running_def)
  have p3: "?e < 900000 \<longrightarrow>
            (\<exists>ci. cooldownInfo (gate rs now) = Some ci \<and>
               remaining_cooldown_minutes ci
                 = \<lceil>(of_int (900000 - ?e) :: rat) / 60000\<rceil> \<and>
               minutes_since_completion ci = \<lfloor>(of_int ?e :: rat) / 60000\<rfloor> \<and>
               60000 * (remaining_cooldown_minutes ci - 1) < 900000 - ?e \<and>
               900000 - ?e \<le> 60000 * remaining_cooldown_minutes ci \<and>
               60000 * minutes_since_completion ci \<le> ?e \<and>
               ?e < 60000 * (minutes_since_completion ci + 1))"
    using c1 c2 b1 b2 b3 b4 by (simp add: g)
  have p4: "?e = 300000 \<longrightarrow>
            (\<exists>ci. cooldownInfo (gate rs now) = Some ci \<and>
               remaining_cooldown_minutes ci = 10 \<and> minutes_since_completion ci = 5)"
    by (simp add: g)
  from cp p1 p2 p3 p4 show ?thesis by blast
qed

text \<open>
  The theorem at a record that ended at 9700000: 5 minutes later the gate reports 10
  remaining minutes; 899999 ms after the end it still blocks, 900000 ms after it allows.
\<close>

theorem cooldown_compares_exact_milliseconds_witness:
  "filter is_active runs_five_minutes = [] \<and>
   find is_completed runs_five_minutes
     = Some (run ''fault_a'' ''success'' (DateMs 9000000) (DateMs 9700000)) \<and>
   isRunning (gate runs_five_minutes 10000000) \<and>
   inCooldown (gate runs_five_minutes 10000000) \<and>
   (\<exists>ci. cooldownInfo (gate runs_five_minutes 10000000) = Some ci \<and>
      remaining_cooldown_minutes ci = 10 \<and> minutes_since_completion ci = 5) \<and>
   isRunning (gate runs_five_minutes 10599999) \<and>
   \<not> isRunning (gate runs_five_minutes 10600000)"
proof -
  have a: "\<forall>r \<in> set runs_five_minutes. \<not> is_active r"
    by (simp add: runs_five_minutes_def run_def is_active_def)
  have f: "find is_completed runs_five_minutes
             = Some (run ''fault_a'' ''success'' (DateMs 9000000) (DateMs 9700000))"
    by (simp add: runs_five_minutes_def run_def is_completed_def)
  have e: "end_date (run ''fault_a'' ''success'' (DateMs 9000000) (DateMs 9700000)) = DateMs 9700000"
    by (simp add: run_def)
  from cooldown_compares_exact_milliseconds [OF a f e, of 10000000]
       cooldown_compares_exact_milliseconds [OF a f e, of 10599999]
       cooldown_compares_exact_milliseconds [OF a f e, of 10600000] a f
  show ?thesis by simp
qed

subsection \<open>C9: a completed run without end date\<close>

text \<open>
  C9. With no Active record, when the Terminal record the gate selects (the first in the
  order received) has a null end date, the gate makes no cooldown check and allows,
  whatever the end dates of the other Terminal records.
\<close>

theorem null_end_date_skips_cooldown:
  assumes "\<forall>r \<in> set rs. \<not> is_active r"
    and "find is_completed rs = Some r"
    and "end_date r = DateNull"
  shows "gate rs now = not_running \<and> \<not> isRunning (gate rs now) \<and> \<not> inCooldown (gate rs now)"
  using assms by (simp add: gate_no_active not_running_def)

text \<open>
  The theorem at two Terminal records: the first has no end date, the second ended one
  minute before now, inside the cooldown window; the gate allows.
\<close>

theorem null_end_date_skips_cooldown_witness:
  "filter is_active runs_null_end = [] \<and>
   find is_completed runs_null_end = Some (run ''fault_new'' ''failed'' (DateMs 5000000) DateNull) \<and>
   run ''fault_old'' ''success'' (DateMs 4000000) (DateMs 9940000) \<in> set runs_null_end \<and>
   is_completed (run ''fault_old'' ''success'' (DateMs 4000000) (DateMs 9940000)) \<and>
   10000000 - 9940000 < cooldownPeriod \<and>
   gate runs_null_end 10000000 = not_running"
proof -
  have a: "\<forall>r \<in> set runs_null_end. \<not> is_active r"
    by (simp add: runs_null_end_def run_def is_active_def)
  have f: "find is_completed runs_null_end
             = Some (run ''fault_new'' ''failed'' (DateMs 5000000) DateNull)"
    by (simp add: runs_null_end_def run_def is_completed_def)
  have e: "end_date (run ''fault_new'' ''failed'' (DateMs 5000000) DateNull) = DateNull"
    by (simp add: run_def)
  have o: "run ''fault_old'' ''success'' (DateMs 4000000) (DateMs 9940000) \<in> set runs_null_end"
    by (simp add: runs_null_end_def)
  have c: "is_completed (run ''fault_old'' ''success'' (DateMs 4000000) (DateMs 9940000))"
    by (simp add: run_def is_completed_def)
  have w: "10000000 - 9940000 < cooldownPeriod" by (simp add: cooldownPeriod_def)
  from null_end_date_skips_cooldown [OF a f e, of 10000000] a f o c w show ?thesis by simp
qed

subsection \<open>C8: the cached credential\<close>

text \<open>
  C8. A credential is valid exactly when a non-empty token and an expiry are cached and
  the clock is strictly before that expiry. \<^verbatim>\<open>getJWTToken\<close> returns a cached
  credential without a request to the upstream, and without a change of state, if and
  only if it is valid. Without a valid credential, and so always after an invalidation,
  \<^verbatim>\<open>getJWTToken\<close> sends one login request and its result is the outcome of that
  request and nothing else: on a 2xx reply the token of the reply, which is cached with
  an expiry 23 hours after the reply arrived; on a failure, or with no reply at all, the
  error, with the cache as it was. A cached token that is not valid is never returned.
\<close>

theorem getJWTToken_cache_policy:
  "(token_valid w \<longleftrightarrow>
      (\<exists>tok expiry. jwtToken w = Some tok \<and> tok \<noteq> [] \<and> tokenExpiry w = Some expiry \<and>
         expiry \<noteq> 0 \<and> clock w < expiry)) \<and>
   (\<forall>tok expiry.
      jwtToken w = Some tok \<and> tok \<noteq> [] \<and> tokenExpiry w = Some expiry \<and> expiry \<noteq> 0 \<longrightarrow>
        (fst (getJWTToken w) = Inr (Some tok) \<and> sent (snd (getJWTToken w)) = sent w
           \<longleftrightarrow> clock w < expiry)) \<and>
   (token_valid w \<longrightarrow> getJWTToken w = (Inr (jwtToken w), w)) \<and>
   (\<not> token_valid w \<and> script w = [] \<longrightarrow>
      getJWTToken w =
        (Inl \<lparr>err_status = None, err_details = [], err_config = auth_request\<rparr>,
         w\<lparr>sent := sent w @ [auth_request]\<rparr>)) \<and>
   (\<forall>r rest f.
      \<not> token_valid w \<and> script w = r # rest \<and> outcome r = Inl f \<longrightarrow>
        getJWTToken w =
          (Inl \<lparr>err_status = status f, err_details = details f, err_config = auth_request\<rparr>,
           w\<lparr>clock := clock w + int (latency r), script := rest,
             sent := sent w @ [auth_request]\<rparr>)) \<and>
   (\<forall>r rest d.
      \<not> token_valid w \<and> script w = r # rest \<and> outcome r = Inr d \<longrightarrow>
        getJWTToken w =
          (Inr (access_token d),
           w\<lparr>clock := clock w + int (latency r), script := rest,
             jwtToken := access_token d,
             tokenExpiry := Some (clock w + int (latency r) + 23 * 60 * 60 * 1000),
             sent := sent w @ [auth_request]\<rparr>)) \<and>
   \<not> token_valid (invalidate w) \<and>
   invalidate w = w\<lparr>jwtToken := None, tokenExpiry := None\<rparr>"
proof (intro conjI allI impI)
  show "token_valid w \<longleftrightarrow>
          (\<exists>tok expiry. jwtToken w = Some tok \<and> tok \<noteq> [] \<and> tokenExpiry w = Some expiry \<and>
             expiry \<noteq> 0 \<and> clock w < expiry)"
    by (auto simp: token_valid_def split: option.splits)
next
  fix tok expiry
  assume c: "jwtToken w = Some tok \<and> tok \<noteq> [] \<and> tokenExpiry w = Some expiry \<and> expiry \<noteq> 0"
  then have v: "token_valid w \<longleftrightarrow> clock w < expiry" by (simp add: token_valid_def)
  show "fst (getJWTToken w) = Inr (Some tok) \<and> sent (snd (getJWTToken w)) = sent w
          \<longleftrightarrow> clock w < expiry"
  proof
    assume "clock w < expiry"
    with v c show "fst (getJWTToken w) = Inr (Some tok) \<and> sent (snd (getJWTToken w)) = sent w"
      by (simp add: getJWTToken_valid)
  next
    assume "fst (getJWTToken w) = Inr (Some tok) \<and> sent (snd (getJWTToken w)) = sent w"
    then have "token_valid w" by (simp add: getJWTToken_sent split: if_splits)
    with v show "clock w < expiry" by simp
  qed
next
  assume "token_valid w"
  then show "getJWTToken w = (Inr (jwtToken w), w)" by (rule getJWTToken_valid)
next
  assume "\<not> token_valid w \<and> script w = []"
  then show "getJWTToken w =
               (Inl \<lparr>err_status = None, err_details = [], err_config = auth_request\<rparr>,
                w\<lparr>sent := sent w @ [auth_request]\<rparr>)"
    by (simp add: getJWTToken_def getJWTToken_begin_def getJWTToken_resume_def
          http_send_def http_receive_def)
next
  fix r rest f
  assume "\<not> token_valid w \<and> script w = r # rest \<and> outcome r = Inl f"
  then show "getJWTToken w =
               (Inl \<lparr>err_status = status f, err_details = details f,
                     err_config = auth_request\<rparr>,
                w\<lparr>clock := clock w + int (latency r), script := rest,
                  sent := sent w @ [auth_request]\<rparr>)"
    by (simp add: getJWTToken_def getJWTToken_begin_def getJWTToken_resume_def
          http_send_def http_receive_def Let_def)
next
  fix r rest d
  assume "\<not> token_valid w \<and> script w = r # rest \<and> outcome r = Inr d"
  then show "getJWTToken w =
               (Inr (access_token d),
                w\<lparr>clock := clock w + int (latency r), script := rest,
                  jwtToken := access_token d,
                  tokenExpiry := Some (clock w + int (latency r) + 23 * 60 * 60 * 1000),
                  sent := sent w @ [auth_request]\<rparr>)"
    by (simp add: getJWTToken_def getJWTToken_begin_def getJWTToken_resume_def
          http_send_def http_receive_def Let_def)
next
  show "\<not> token_valid (invalidate w)" by (rule invalidate_not_valid)
  show "invalidate w = w\<lparr>jwtToken := None, tokenExpiry := None\<rparr>" by (simp add: invalidate_def)
qed

text \<open>
  The theorem at four states. A token that expires at 5000000, read at 1000, is returned
  as it is. Read at 5000000 it is replaced by the token of a fresh login, which expires 23
  hours after the reply. Read at 5000000 when the login is answered with 503, the result
  is that error and the old token is not returned. After an invalidation at 1000 the
  token is replaced as well.
\<close>

theorem getJWTToken_cache_policy_witness:
  "getJWTToken world_cached = (Inr (Some ''t1''), world_cached) \<and>
   \<not> token_valid world_expired \<and>
   getJWTToken world_expired =
     (Inr (Some ''t2''),
      \<lparr>use_jwt_auth = True, clock = 5000010, script = [],
       jwtToken = Some ''t2'', tokenExpiry = Some 87800010, sent = [auth_request]\<rparr>) \<and>
   \<not> token_valid world_expired_down \<and>
   getJWTToken world_expired_down =
     (Inl \<lparr>err_status = Some 503, err_details = ''unavailable'', err_config = auth_request\<rparr>,
      \<lparr>use_jwt_auth = True, clock = 5000010, script = [],
       jwtToken = Some ''t1'', tokenExpiry = Some 5000000, sent = [auth_request]\<rparr>) \<and>
   getJWTToken (invalidate world_cached) =
     (Inr (Some ''t2''),
      \<lparr>use_jwt_auth = True, clock = 1010, script = [],
       jwtToken = Some ''t2'', tokenExpiry = Some 82801010, sent = [auth_request]\<rparr>)"
proof -
  have v: "token_valid world_cached" by (simp add: world_cached_def token_valid_def)
  have n: "\<not> token_valid world_expired" by (simp add: world_expired_def token_valid_def)
  have s: "\<not> token_valid world_expired \<and> script world_expired = reply_token ''t2'' # [] \<and>
           outcome (reply_token ''t2'') = Inr (TokenData (Some ''t2''))"
    using n by (simp add: world_expired_def reply_token_def)
  have nd: "\<not> token_valid world_expired_down"
    by (simp add: world_expired_down_def token_valid_def)
  have sd: "\<not> token_valid world_expired_down \<and> script world_expired_down = reply_503 # [] \<and>
            outcome reply_503 = Inl \<lparr>status = Some 503, details = ''unavailable''\<rparr>"
    using nd by (simp add: world_expired_down_def reply_503_def)
  have si: "\<not> token_valid (invalidate world_cached) \<and>
            script (invalidate world_cached) = reply_token ''t2'' # [] \<and>
            outcome (reply_token ''t2'') = Inr (TokenData (Some ''t2''))"
    using getJWTToken_cache_policy [of world_cached]
    by (simp add: world_cached_def invalidate_def reply_token_def)
  from getJWTToken_cache_policy [of world_cached] v
  have 1: "getJWTToken world_cached = (Inr (jwtToken world_cached), world_cached)" by blast
  from getJWTToken_cache_policy [of world_expired] s
  have 2: "getJWTToken world_expired =
             (Inr (access_token (TokenData (Some ''t2''))),
              world_expired\<lparr>clock := clock world_expired + int (latency (reply_token ''t2'')),
                script := [], jwtToken := access_token (TokenData (Some ''t2'')),
                tokenExpiry := Some (clock world_expired + int (latency (reply_token ''t2''))
                                       + 23 * 60 * 60 * 1000),
                sent := sent world_expired @ [auth_request]\<rparr>)" by blast
  from getJWTToken_cache_policy [of world_expired_down] sd
  have 3: "getJWTToken world_expired_down =
             (Inl \<lparr>err_status = status \<lparr>status = Some 503, details = ''unavailable''\<rparr>,
                   err_details = details \<lparr>status = Some 503, details = ''unavailable''\<rparr>,
                   err_config = auth_request\<rparr>,
              world_expired_down\<lparr>clock := clock world_expired_down + int (latency reply_503),
                script := [], sent := sent world_expired_down @ [auth_request]\<rparr>)" by blast
  from getJWTToken_cache_policy [of "invalidate world_cached"] si
  have 4: "getJWTToken (invalidate world_cached) =
             (Inr (access_token (TokenData (Some ''t2''))),
              (invalidate world_cached)\<lparr>clock := clock (invalidate world_cached)
                                           + int (latency (reply_token ''t2'')),
                script := [], jwtToken := access_token (TokenData (Some ''t2'')),
                tokenExpiry := Some (clock (invalidate world_cached)
                                       + int (latency (reply_token ''t2''))
                                       + 23 * 60 * 60 * 1000),
                sent := sent (invalidate world_cached) @ [auth_request]\<rparr>)" by blast
  from 1 n 2 nd 3 4 show ?thesis
    by (simp add: world_cached_def world_expired_def world_expired_down_def invalidate_def
          access_token_def reply_token_def reply_503_def)
qed

subsection \<open>C5: one retry after a 401\<close>

text \<open>
  C5 does not hold of the code. The error handler of the response interceptor also
  receives the rejection of the request interceptor, a login that failed inside
  \<^verbatim>\<open>getJWTToken\<close>; \<^verbatim>\<open>error.config\<close> is then the login request, a new object at every
  login, which never carries \<^verbatim>\<open>_retry\<close>. The first state has no token and a token endpoint
  that answers 401, then 200 without \<^verbatim>\<open>access_token\<close>, then the same again, then 401:
  one call for the list of runs clears the credential and logs in again three times and
  retries twice; it sends six login requests, never the list request, and ends only when
  the upstream stops answering. The second state has \<^verbatim>\<open>USE_JWT_AUTH\<close> off: after a 401 on
  the list request and a login that succeeds, the retry carries the Basic header of the
  first attempt, not the new token.
\<close>

theorem retry_repeats_after_login_401:
  "airflowAPI list_request world_login_flapping =
     (Inl \<lparr>err_status = None, err_details = [], err_config = auth_request\<rparr>,
      \<lparr>use_jwt_auth = True, clock = 1050, script = [], jwtToken = None, tokenExpiry = None,
       sent = [auth_request, auth_request, auth_request, auth_request, auth_request,
               auth_request]\<rparr>) \<and>
   count_sent GetDagRuns (snd (airflowAPI list_request world_login_flapping)) = 0 \<and>
   count_sent PostAuthToken (snd (airflowAPI list_request world_login_flapping)) = 6 \<and>
   airflowAPI list_request world_basic_401 =
     (Inl \<lparr>err_status = Some 401, err_details = ''Unauthorized'',
           err_config = \<lparr>request = GetDagRuns, authorization = Basic, retry = True\<rparr>\<rparr>,
      \<lparr>use_jwt_auth = False, clock = 1030, script = [reply_runs []],
       jwtToken = Some ''t2'', tokenExpiry = Some 82801020,
       sent = [\<lparr>request = GetDagRuns, authorization = Basic, retry = False\<rparr>,
               auth_request,
               \<lparr>request = GetDagRuns, authorization = Basic, retry = True\<rparr>]\<rparr>)"
proof -
  have 1: "airflowAPI list_request world_login_flapping =
     (Inl \<lparr>err_status = None, err_details = [], err_config = auth_request\<rparr>,
      \<lparr>use_jwt_auth = True, clock = 1050, script = [], jwtToken = None, tokenExpiry = None,
       sent = [auth_request, auth_request, auth_request, auth_request, auth_request,
               auth_request]\<rparr>)"
    by (simp add: world_login_flapping_def handler_eval client_eval reply_401_def
          reply_no_token_def)
  have 2: "airflowAPI list_request world_basic_401 =
     (Inl \<lparr>err_status = Some 401, err_details = ''Unauthorized'',
           err_config = \<lparr>request = GetDagRuns, authorization = Basic, retry = True\<rparr>\<rparr>,
      \<lparr>use_jwt_auth = False, clock = 1030, script = [reply_runs []],
       jwtToken = Some ''t2'', tokenExpiry = Some 82801020,
       sent = [\<lparr>request = GetDagRuns, authorization = Basic, retry = False\<rparr>,
               auth_request,
               \<lparr>request = GetDagRuns, authorization = Basic, retry = True\<rparr>]\<rparr>)"
    by (simp add: world_basic_401_def handler_eval client_eval reply_401_def reply_token_def)
  from 1 2 show ?thesis by (simp add: count_sent_def auth_request_def)
qed

subsection \<open>C10: concurrent callers\<close>

text \<open>
  C10, as the code has it. Logins are not coalesced: when two callers run
  \<^verbatim>\<open>getJWTToken\<close> at once and there is no valid credential, each of them sends its own
  login request, so two login requests reach the upstream whatever it answers, and each
  caller continues with the outcome of its own request: the token of its reply, or its
  error, which is the network error when the upstream does not answer. Afterwards the
  cache holds the token of the last login that succeeded, with the expiry set at that
  reply; it is as before when both fail.
\<close>

theorem concurrent_logins_not_coalesced:
  assumes "\<not> token_valid w"
  shows "sent (snd (two_concurrent_getJWTToken w)) = sent w @ [auth_request, auth_request] \<and>
         (script w = [] \<longrightarrow>
            two_concurrent_getJWTToken w =
              ((Inl \<lparr>err_status = None, err_details = [], err_config = auth_request\<rparr>,
                Inl \<lparr>err_status = None, err_details = [], err_config = auth_request\<rparr>),
               w\<lparr>sent := sent w @ [auth_request, auth_request]\<rparr>)) \<and>
         (\<forall>rA dA.
            script w = [rA] \<and> outcome rA = Inr dA \<longrightarrow>
              two_concurrent_getJWTToken w =
                ((Inr (access_token dA),
                  Inl \<lparr>err_status = None, err_details = [], err_config = auth_request\<rparr>),
                 w\<lparr>clock := clock w + int (latency rA), script := [],
                   jwtToken := access_token dA,
                   tokenExpiry := Some (clock w + int (latency rA) + 23 * 60 * 60 * 1000),
                   sent := sent w @ [auth_request, auth_request]\<rparr>)) \<and>
         (\<forall>rA fA.
            script w = [rA] \<and> outcome rA = Inl fA \<longrightarrow>
              two_concurrent_getJWTToken w =
                ((Inl \<lparr>err_status = status fA, err_details = details fA,
                       err_config = auth_request\<rparr>,
                  Inl \<lparr>err_status = None, err_details = [], err_config = auth_request\<rparr>),
                 w\<lparr>clock := clock w + int (latency rA), script := [],
                   sent := sent w @ [auth_request, auth_request]\<rparr>)) \<and>
         (\<forall>rA rB rest dA dB.
            script w = rA # rB # rest \<and> outcome rA = Inr dA \<and> outcome rB = Inr dB \<longrightarrow>
              two_concurrent_getJWTToken w =
                ((Inr (access_token dA), Inr (access_token dB)),
                 w\<lparr>clock := clock w + int (latency rA) + int (latency rB), script := rest,
                   jwtToken := access_token dB,
                   tokenExpiry := Some (clock w + int (latency rA) + int (latency rB)
                                          + 23 * 60 * 60 * 1000),
                   sent := sent w @ [auth_request, auth_request]\<rparr>)) \<and>
         (\<forall>rA rB rest dA fB.
            script w = rA # rB # rest \<and> outcome rA = Inr dA \<and> outcome rB = Inl fB \<longrightarrow>
              two_concurrent_getJWTToken w =
                ((Inr (access_token dA),
                  Inl \<lparr>err_status = status fB, err_details = details fB,
                       err_config = auth_request\<rparr>),
                 w\<lparr>clock := clock w + int (latency rA) + int (latency rB), script := rest,
                   jwtToken := access_token dA,
                   tokenExpiry := Some (clock w + int (latency rA) + 23 * 60 * 60 * 1000),
                   sent := sent w @ [auth_request, auth_request]\<rparr>)) \<and>
         (\<forall>rA rB rest fA dB.
            script w = rA # rB # rest \<and> outcome rA = Inl fA \<and> outcome rB = Inr dB \<longrightarrow>
              two_concurrent_getJWTToken w =
                ((Inl \<lparr>err_status = status fA, err_details = details fA,
                       err_config = auth_request\<rparr>,
                  Inr (access_token dB)),
                 w\<lparr>clock := clock w + int (latency rA) + int (latency rB), script := rest,
                   jwtToken := access_token dB,
                   tokenExpiry := Some (clock w + int (latency rA) + int (latency rB)
                                          + 23 * 60 * 60 * 1000),
                   sent := sent w @ [auth_request, auth_request]\<rparr>)) \<and>
         (\<forall>rA rB rest fA fB.
            script w = rA # rB # rest \<and> outcome rA = Inl fA \<and> outcome rB = Inl fB \<longrightarrow>
              two_concurrent_getJWTToken w =
                ((Inl \<lparr>err_status = status fA, err_details = details fA,
                       err_config = auth_request\<rparr>,
                  Inl \<lparr>err_status = status fB, err_details = details fB,
                       err_config = auth_request\<rparr>),
                 w\<lparr>clock := clock w + int (latency rA) + int (latency rB), script := rest,
                   sent := sent w @ [auth_request, auth_request]\<rparr>))"
proof -
  from assms have b1: "getJWTToken_begin w = (None, http_send auth_request w)"
    by (simp add: getJWTToken_begin_def)
  have "token_valid (http_send auth_request w) = token_valid w"
    by (simp add: token_valid_def http_send_def split: option.splits)
  with assms have "\<not> token_valid (http_send auth_request w)" by simp
  then have b2: "getJWTToken_begin (http_send auth_request w)
                   = (None, http_send auth_request (http_send auth_request w))"
    by (simp add: getJWTToken_begin_def)
  let ?w2 = "http_send auth_request (http_send auth_request w)"
  have e: "two_concurrent_getJWTToken w =
           (case getJWTToken_resume (http_receive auth_request ?w2) of
              (resultA, w3) \<Rightarrow>
                (case getJWTToken_resume (http_receive auth_request w3) of
                   (resultB, w4) \<Rightarrow> ((resultA, resultB), w4)))"
    by (simp add: two_concurrent_getJWTToken_def b1 b2)
  have r: "sent (snd (getJWTToken_resume (http_receive auth_request v))) = sent v" for v
    by (simp add: getJWTToken_resume_def http_receive_def Let_def
          split: prod.splits sum.splits list.splits)
  have "sent (snd (two_concurrent_getJWTToken w)) = sent ?w2"
    unfolding e using r
    by (auto split: prod.splits) (metis snd_conv)
  then have s: "sent (snd (two_concurrent_getJWTToken w)) = sent w @ [auth_request, auth_request]"
    by (simp add: http_send_def)
  note ev = e getJWTToken_resume_def http_receive_def http_send_def Let_def
  show ?thesis
  proof (intro conjI allI impI)
    show "sent (snd (two_concurrent_getJWTToken w)) = sent w @ [auth_request, auth_request]"
      by (rule s)
  next
    assume "script w = []"
    then show "two_concurrent_getJWTToken w =
              ((Inl \<lparr>err_status = None, err_details = [], err_config = auth_request\<rparr>,
                Inl \<lparr>err_status = None, err_details = [], err_config = auth_request\<rparr>),
               w\<lparr>sent := sent w @ [auth_request, auth_request]\<rparr>)"
      by (simp add: ev)
  next
    fix rA dA
    assume "script w = [rA] \<and> outcome rA = Inr dA"
    then show "two_concurrent_getJWTToken w =
                ((Inr (access_token dA),
                  Inl \<lparr>err_status = None, err_details = [], err_config = auth_request\<rparr>),
                 w\<lparr>clock := clock w + int (latency rA), script := [],
                   jwtToken := access_token dA,
                   tokenExpiry := Some (clock w + int (latency rA) + 23 * 60 * 60 * 1000),
                   sent := sent w @ [auth_request, auth_request]\<rparr>)"
      by (simp add: ev)
  next
    fix rA fA
    assume "script w = [rA] \<and> outcome rA = Inl fA"
    then show "two_concurrent_getJWTToken w =
                ((Inl \<lparr>err_status = status fA, err_details = details fA,
                       err_config = auth_request\<rparr>,
                  Inl \<lparr>err_status = None, err_details = [], err_config = auth_request\<rparr>),
                 w\<lparr>clock := clock w + int (latency rA), script := [],
                   sent := sent w @ [auth_request, auth_request]\<rparr>)"
      by (simp add: ev)
  next
    fix rA rB rest dA dB
    assume "script w = rA # rB # rest \<and> outcome rA = Inr dA \<and> outcome rB = Inr dB"
    then show "two_concurrent_getJWTToken w =
                ((Inr (access_token dA), Inr (access_token dB)),
                 w\<lparr>clock := clock w + int (latency rA) + int (latency rB), script := rest,
                   jwtToken := access_token dB,
                   tokenExpiry := Some (clock w + int (latency rA) + int (latency rB)
                                          + 23 * 60 * 60 * 1000),
                   sent := sent w @ [auth_request, auth_request]\<rparr>)"
      by (simp add: ev)
  next
    fix rA rB rest dA fB
    assume "script w = rA # rB # rest \<and> outcome rA = Inr dA \<and> outcome rB = Inl fB"
    then show "two_concurrent_getJWTToken w =
                ((Inr (access_token dA),
                  Inl \<lparr>err_status = status fB, err_details = details fB,
                       err_config = auth_request\<rparr>),
                 w\<lparr>clock := clock w + int (latency rA) + int (latency rB), script := rest,
                   jwtToken := access_token dA,
                   tokenExpiry := Some (clock w + int (latency rA) + 23 * 60 * 60 * 1000),
                   sent := sent w @ [auth_request, auth_request]\<rparr>)"
      by (simp add: ev)
  next
    fix rA rB rest fA dB
    assume "script w = rA # rB # rest \<and> outcome rA = Inl fA \<and> outcome rB = Inr dB"
    then show "two_concurrent_getJWTToken w =
                ((Inl \<lparr>err_status = status fA, err_details = details fA,
                       err_config = auth_request\<rparr>,
                  Inr (access_token dB)),
                 w\<lparr>clock := clock w + int (latency rA) + int (latency rB), script := rest,
                   jwtToken := access_token dB,
                   tokenExpiry := Some (clock w + int (latency rA) + int (latency rB)
                                          + 23 * 60 * 60 * 1000),
                   sent := sent w @ [auth_request, auth_request]\<rparr>)"
      by (simp add: ev)
  next
    fix rA rB rest fA fB
    assume "script w = rA # rB # rest \<and> outcome rA = Inl fA \<and> outcome rB = Inl fB"
    then show "two_concurrent_getJWTToken w =
                ((Inl \<lparr>err_status = status fA, err_details = details fA,
                       err_config = auth_request\<rparr>,
                  Inl \<lparr>err_status = status fB, err_details = details fB,
                       err_config = auth_request\<rparr>),
                 w\<lparr>clock := clock w + int (latency rA) + int (latency rB), script := rest,
                   sent := sent w @ [auth_request, auth_request]\<rparr>)"
      by (simp add: ev)
  qed
qed

text \<open>
  The theorem at a state with no token, at an upstream that grants \<^verbatim>\<open>tA\<close> and then
  \<^verbatim>\<open>tB\<close>, and at one that grants \<^verbatim>\<open>tA\<close> and then answers 503: there the second
  caller gets the error and \<^verbatim>\<open>tA\<close> stays cached.
\<close>

theorem concurrent_logins_not_coalesced_witness:
  "\<not> token_valid world_no_token \<and>
   two_concurrent_getJWTToken world_no_token =
     ((Inr (Some ''tA''), Inr (Some ''tB'')),
      \<lparr>use_jwt_auth = True, clock = 1020, script = [],
       jwtToken = Some ''tB'', tokenExpiry = Some 82801020,
       sent = [auth_request, auth_request]\<rparr>) \<and>
   \<not> token_valid world_second_login_fails \<and>
   two_concurrent_getJWTToken world_second_login_fails =
     ((Inr (Some ''tA''),
       Inl \<lparr>err_status = Some 503, err_details = ''unavailable'', err_config = auth_request\<rparr>),
      \<lparr>use_jwt_auth = True, clock = 1020, script = [],
       jwtToken = Some ''tA'', tokenExpiry = Some 82801010,
       sent = [auth_request, auth_request]\<rparr>)"
proof -
  have n: "\<not> token_valid world_no_token" by (simp add: world_no_token_def token_valid_def)
  have s: "script world_no_token = reply_token ''tA'' # reply_token ''tB'' # [] \<and>
           outcome (reply_token ''tA'') = Inr (TokenData (Some ''tA'')) \<and>
           outcome (reply_token ''tB'') = Inr (TokenData (Some ''tB''))"
    by (simp add: world_no_token_def reply_token_def)
  have n': "\<not> token_valid world_second_login_fails"
    by (simp add: world_second_login_fails_def token_valid_def)
  have s': "script world_second_login_fails = reply_token ''tA'' # reply_503 # [] \<and>
            outcome (reply_token ''tA'') = Inr (TokenData (Some ''tA'')) \<and>
            outcome reply_503 = Inl \<lparr>status = Some 503, details = ''unavailable''\<rparr>"
    by (simp add: world_second_login_fails_def reply_token_def reply_503_def)
  from concurrent_logins_not_coalesced [OF n] s
  have 1: "two_concurrent_getJWTToken world_no_token =
             ((Inr (access_token (TokenData (Some ''tA''))),
               Inr (access_token (TokenData (Some ''tB'')))),
              world_no_token\<lparr>clock := clock world_no_token + int (latency (reply_token ''tA''))
                                        + int (latency (reply_token ''tB'')),
                script := [], jwtToken := access_token (TokenData (Some ''tB'')),
                tokenExpiry := Some (clock world_no_token + int (latency (reply_token ''tA''))
                                       + int (latency (reply_token ''tB''))
                                       + 23 * 60 * 60 * 1000),
                sent := sent world_no_token @ [auth_request, auth_request]\<rparr>)" by blast
  from concurrent_logins_not_coalesced [OF n'] s'
  have 2: "two_concurrent_getJWTToken world_second_login_fails =
             ((Inr (access_token (TokenData (Some ''tA''))),
               Inl \<lparr>err_status = status \<lparr>status = Some 503, details = ''unavailable''\<rparr>,
                    err_details = details \<lparr>status = Some 503, details = ''unavailable''\<rparr>,
                    err_config = auth_request\<rparr>),
              world_second_login_fails\<lparr>clock := clock world_second_login_fails
                                                  + int (latency (reply_token ''tA''))
                                                  + int (latency reply_503),
                script := [], jwtToken := access_token (TokenData (Some ''tA'')),
                tokenExpiry := Some (clock world_second_login_fails
                                       + int (latency (reply_token ''tA''))
                                       + 23 * 60 * 60 * 1000),
                sent := sent world_second_login_fails @ [auth_request, auth_request]\<rparr>)"
    by blast
  from 1 2 n n' show ?thesis
    by (simp add: world_no_token_def world_second_login_fails_def access_token_def
          reply_token_def reply_503_def)
qed

text \<open>
  C10 as the specification words it fails there: two login requests are sent, not one,
  and the two callers receive different tokens.
\<close>

theorem two_callers_two_logins:
  "\<not> token_valid world_no_token \<and>
   count_sent PostAuthToken (snd (two_concurrent_getJWTToken world_no_token))
     = count_sent PostAuthToken world_no_token + 2 \<and>
   fst (two_concurrent_getJWTToken world_no_token) = (Inr (Some ''tA''), Inr (Some ''tB''))"
  by (simp add: two_concurrent_getJWTToken_def world_no_token_def client_eval reply_token_def count_sent_def)

subsection \<open>C4: the gate fails open\<close>

text \<open>
  C4. When the fetch of the recent runs fails, with any error, \<^verbatim>\<open>isAnyDagRunning\<close>
  returns what the gate returns on the empty list of records: not running, no cooldown.
  The trigger handler then goes on to the trigger call and answers with its outcome.
\<close>

theorem gate_fails_open:
  assumes "airflowAPI list_request w = (Inl error, w1)"
  shows "isAnyDagRunning w = (gate [] now, w1) \<and>
         \<not> isRunning (fst (isAnyDagRunning w)) \<and> \<not> inCooldown (fst (isAnyDagRunning w)) \<and>
         trigger_dag dagId conf logicalDate w =
           (case airflowAPI
                   (trigger_request dagId (build_payload (use_jwt_auth w) conf logicalDate)) w1 of
              (Inr d, w2) \<Rightarrow> (\<lparr>status_code = 200, body = RunCreated d\<rparr>, w2)
            | (Inl error', w2) \<Rightarrow>
                (\<lparr>status_code = error_status error',
                  body = ErrorBody (err_details error')\<rparr>, w2))"
proof -
  from assms have i: "isAnyDagRunning w = (not_running, w1)" by (simp add: isAnyDagRunning_def)
  have g: "gate [] now = not_running" by (simp add: gate_def)
  from airflowAPI_use_jwt [of list_request w] assms have u: "use_jwt_auth w1 = use_jwt_auth w"
    by simp
  from i u show ?thesis by (simp add: g trigger_dag_def not_running_def)
qed

text \<open>
  The theorem at an upstream that answers the list request with 503 and the trigger
  request with the new run: the handler answers 200 with that run.
\<close>

theorem gate_fails_open_witness:
  "airflowAPI list_request world_upstream_down =
     (Inl \<lparr>err_status = Some 503, err_details = ''unavailable'',
           err_config = \<lparr>request = GetDagRuns, authorization = Basic, retry = False\<rparr>\<rparr>,
      \<lparr>use_jwt_auth = False, clock = 1010,
       script = [reply_created (run ''fault_x'' ''queued'' DateNull DateNull)],
       jwtToken = None, tokenExpiry = None,
       sent = [\<lparr>request = GetDagRuns, authorization = Basic, retry = False\<rparr>]\<rparr>) \<and>
   fst (isAnyDagRunning world_upstream_down) = gate [] 1010 \<and>
   fst (trigger_dag ''fault_x'' None None world_upstream_down) =
     \<lparr>status_code = 200,
      body = RunCreated (DagRunData (run ''fault_x'' ''queued'' DateNull DateNull))\<rparr> \<and>
   sent (snd (trigger_dag ''fault_x'' None None world_upstream_down)) =
     [\<lparr>request = GetDagRuns, authorization = Basic, retry = False\<rparr>,
      \<lparr>request = PostDagRun ''fault_x'' (Payload2 None), authorization = Basic, retry = False\<rparr>]"
proof -
  let ?w1 = "\<lparr>use_jwt_auth = False, clock = 1010,
              script = [reply_created (run ''fault_x'' ''queued'' DateNull DateNull)],
              jwtToken = None, tokenExpiry = None,
              sent = [\<lparr>request = GetDagRuns, authorization = Basic, retry = False\<rparr>]\<rparr>"
  let ?e = "\<lparr>err_status = Some 503, err_details = ''unavailable'',
             err_config = \<lparr>request = GetDagRuns, authorization = Basic, retry = False\<rparr>\<rparr>"
  have f: "airflowAPI list_request world_upstream_down = (Inl ?e, ?w1)"
    by (simp add: world_upstream_down_def handler_eval client_eval reply_503_def reply_created_def)
  have u: "use_jwt_auth world_upstream_down = False" by (simp add: world_upstream_down_def)
  from gate_fails_open [OF f, of 1010 "''fault_x''" None None] f u show ?thesis
    by (simp add: handler_eval client_eval reply_503_def reply_created_def)
qed

subsection \<open>C3: the trigger handler\<close>

text \<open>
  C3 does not hold of the code. The state has \<^verbatim>\<open>USE_JWT_AUTH\<close> on and a cached token
  that expires while the list of runs is fetched. The gate finds no run and allows. For
  the trigger call the request interceptor logs in and is answered with 401; the error
  handler of the response interceptor takes the login request for the request that
  failed, logs in again, with success, and sends the login request once more through
  \<^verbatim>\<open>airflowAPI\<close>. The handler answers 200 with the body of that login; no trigger
  request has been sent.
\<close>

theorem trigger_answers_login_body:
  "fst (isAnyDagRunning world_expiring) = not_running \<and>
   trigger_dag ''fault_x'' None None world_expiring =
     (\<lparr>status_code = 200, body = RunCreated (TokenData (Some ''t3''))\<rparr>,
      \<lparr>use_jwt_auth = True, clock = 5000035, script = [],
       jwtToken = Some ''t2'', tokenExpiry = Some 87800025,
       sent = [\<lparr>request = GetDagRuns, authorization = Bearer (Some ''t1''), retry = False\<rparr>,
               auth_request, auth_request,
               \<lparr>request = PostAuthToken, authorization = Bearer (Some ''t2''),
                retry = True\<rparr>]\<rparr>) \<and>
   filter is_trigger (sent (snd (trigger_dag ''fault_x'' None None world_expiring))) = []"
proof -
  have i: "isAnyDagRunning world_expiring =
             (not_running,
              \<lparr>use_jwt_auth = True, clock = 5000005,
               script = [reply_401, reply_token ''t2'', reply_token ''t3''],
               jwtToken = Some ''t1'', tokenExpiry = Some 5000000,
               sent = [\<lparr>request = GetDagRuns, authorization = Bearer (Some ''t1''),
                        retry = False\<rparr>]\<rparr>)"
    by (simp add: world_expiring_def handler_eval client_eval reply_runs_def gate_def)
  have t: "trigger_dag ''fault_x'' None None world_expiring =
     (\<lparr>status_code = 200, body = RunCreated (TokenData (Some ''t3''))\<rparr>,
      \<lparr>use_jwt_auth = True, clock = 5000035, script = [],
       jwtToken = Some ''t2'', tokenExpiry = Some 87800025,
       sent = [\<lparr>request = GetDagRuns, authorization = Bearer (Some ''t1''), retry = False\<rparr>,
               auth_request, auth_request,
               \<lparr>request = PostAuthToken, authorization = Bearer (Some ''t2''),
                retry = True\<rparr>]\<rparr>)"
    unfolding trigger_dag_def i
    by (simp add: not_running_def airflowAPI.simps attempt_def response_error_interceptor_def
          trigger_request_def build_payload_def client_eval reply_401_def reply_token_def)
  from i t show ?thesis by (simp add: is_trigger_def auth_request_def)
qed

end
